theory Spec2Isabelle
  imports Complex_Main
begin

section \<open>Binary64 arithmetic\<close>

text \<open>
  Every quantity of \<^verbatim>\<open>FEA_cable_collide_1_solution.cpp\<close> is a C++ \<^verbatim>\<open>double\<close>.
  A finite double is a rational number, so the type is modelled by \<open>rat\<close>, and every
  literal and every arithmetic operation rounds its exact result to the nearest binary64
  value, ties to the even significand: 53 significant bits, least exponent \<open>-1074\<close>.
  Nothing in \<^verbatim>\<open>main\<close> comes near \<open>2 ^ 1024\<close>, divides by zero or tells \<open>-0\<close> from \<open>0\<close>, so
  infinities, NaN and the sign of zero are left out. Each operation is taken to round
  once, to binary64, as compilers for x86-64 and AArch64 do by default; no extended
  precision and no fused operation is assumed.
\<close>

type_synonym double = rat

function bitlen :: "int \<Rightarrow> nat" where
  "bitlen n = (if n \<le> 0 then 0 else Suc (bitlen (n div 2)))"
  by pat_completeness auto
termination
  by (relation "measure nat") auto

declare bitlen.simps [simp del]

text \<open>\<open>scale2 x e\<close> is \<open>x\<close> times \<open>2\<close> to the power \<open>e\<close>, for an exponent of either sign.\<close>

definition scale2 :: "rat \<Rightarrow> int \<Rightarrow> rat" where
  "scale2 x e = (if 0 \<le> e then x * 2 ^ nat e else x / 2 ^ nat (- e))"

text \<open>
  The exponent of the last place of \<open>x\<close>: the \<open>e\<close> with
  \<open>2 ^ 52 \<le> \<bar>x\<bar> / 2 ^ e < 2 ^ 53\<close>, or \<open>-1074\<close> in the subnormal range.
\<close>

definition binade :: "rat \<Rightarrow> int" where
  "binade x =
     (let (p, q) = quotient_of \<bar>x\<bar>;
          k = int (bitlen p) - int (bitlen q);
          e = (if 2 ^ 53 \<le> scale2 \<bar>x\<bar> (53 - k) then k - 52 else k - 53)
      in max e (- 1074))"

definition round_even :: "rat \<Rightarrow> int" where
  "round_even y =
     (let f = \<lfloor>y\<rfloor>; r = y - of_int f
      in if r < 1 / 2 then f
         else if 1 / 2 < r then f + 1
         else if even f then f else f + 1)"

definition dbl :: "rat \<Rightarrow> double" where
  "dbl x = (if x = 0 then 0
            else let e = binade x in scale2 (of_int (round_even (scale2 x (- e)))) e)"

definition dadd :: "double \<Rightarrow> double \<Rightarrow> double" where
  "dadd a b = dbl (a + b)"

definition dsub :: "double \<Rightarrow> double \<Rightarrow> double" where
  "dsub a b = dbl (a - b)"

definition dmul :: "double \<Rightarrow> double \<Rightarrow> double" where
  "dmul a b = dbl (a * b)"

definition ddiv :: "double \<Rightarrow> double \<Rightarrow> double" where
  "ddiv a b = dbl (a / b)"

text \<open>\<^verbatim>\<open>double(i)\<close> for an \<^verbatim>\<open>int\<close>.\<close>

definition double_of_int :: "int \<Rightarrow> double" where
  "double_of_int i = dbl (of_int i)"

datatype ChVector = ChVector (vx: double) (vy: double) (vz: double)

text \<open>\<^verbatim>\<open>operator+\<close> and \<^verbatim>\<open>operator-\<close> of \<^verbatim>\<open>ChVector\<close>: componentwise.\<close>

definition vadd :: "ChVector \<Rightarrow> ChVector \<Rightarrow> ChVector" where
  "vadd a b = ChVector (dadd (vx a) (vx b)) (dadd (vy a) (vy b)) (dadd (vz a) (vz b))"

definition vsub :: "ChVector \<Rightarrow> ChVector \<Rightarrow> ChVector" where
  "vsub a b = ChVector (dsub (vx a) (vx b)) (dsub (vy a) (vy b)) (dsub (vz a) (vz b))"

section \<open>The objects that main creates\<close>

text \<open>
  Objects held by \<^verbatim>\<open>std::shared_ptr\<close> live in per-class stores; a pointer is the index of
  the object in its store, so that two pointers are equal exactly when they denote the
  same object. A field that \<^verbatim>\<open>main\<close> never sets keeps the library's default, which is not
  part of this file: it is \<open>None\<close>.
\<close>

record ChBeamSectionCable =
  diameter :: "double option"
  young_modulus :: "double option"
  rayleigh_damping :: "double option"

record ChNodeFEAxyzD =
  node_pos :: ChVector
  node_D :: ChVector
  node_fixed :: bool

record ChElementCableANCF =
  elem_nodes :: "(nat \<times> nat) option"
  elem_section :: "nat option"

record ChMesh =
  vnodes :: "nat list"
  velements :: "nat list"
  vassets :: nat

text \<open>The arguments of the \<^verbatim>\<open>ChBodyEasyCylinder\<close> constructor, in its order.\<close>

record easy_cylinder =
  cyl_radius :: double
  cyl_height :: double
  cyl_density :: double
  cyl_collide :: bool
  cyl_visualize :: bool

record ChBody =
  body_fixed :: bool
  body_pos :: "ChVector option"
  body_shape :: "easy_cylinder option"

datatype link_kind = PointFrame | DirFrame

record ChLink =
  link_kind :: link_kind
  link_node :: "nat option"
  link_body :: "nat option"

datatype solver_type = SOR | MINRES | MKL

datatype timestepper_type = EULER_IMPLICIT_LINEARIZED | HHT

record ChSystemNSC =
  G_acc :: "ChVector option"
  sys_meshes :: "nat list"
  sys_bodies :: "nat list"
  sys_links :: "nat list"
  solver :: "solver_type option"
  warm_starting :: "bool option"
  max_iters_speed :: "int option"
  max_iters_stab :: "int option"
  tol_force :: "double option"
  timestepper :: "timestepper_type option"
  setup_initial_done :: bool
  steps_done :: nat

record ChIrrApp =
  timestep :: "double option"
  try_realtime :: "bool option"

text \<open>
  The calls whose order matters to the lifecycle are logged as they happen:
  additions to the system and to the mesh, writes to a section, the sharing of a
  section by an element, \<^verbatim>\<open>SetupInitial\<close> and \<^verbatim>\<open>DoStep\<close>. An element's addition is logged with
  the node pointers the element holds and with the node list of the receiving mesh, both
  read from the state at the moment of the call.
\<close>

datatype event =
    EvSysAddMesh nat
  | EvSysAddBody nat
  | EvSysAddLink nat
  | EvMeshAddNode nat nat
  | EvMeshAddElement nat nat "(nat \<times> nat) option" "nat list"
  | EvMeshAddAsset nat
  | EvSectionSet nat
  | EvSetSection nat nat
  | EvSetupInitial
  | EvDoStep

record world =
  system :: ChSystemNSC
  meshes :: "ChMesh list"
  sections :: "ChBeamSectionCable list"
  nodes :: "ChNodeFEAxyzD list"
  elements :: "ChElementCableANCF list"
  bodies :: "ChBody list"
  links :: "ChLink list"
  beam_nodes :: "nat list"
  application :: "ChIrrApp option"
  trace :: "event list"

definition record_event :: "event \<Rightarrow> world \<Rightarrow> world" where
  "record_event e w = w\<lparr>trace := trace w @ [e]\<rparr>"

text \<open>The state before the first statement of \<^verbatim>\<open>main\<close>: \<^verbatim>\<open>ChSystemNSC system;\<close> and nothing else.\<close>

definition world_init :: world where
  "world_init =
     \<lparr>system = \<lparr>G_acc = None, sys_meshes = [], sys_bodies = [], sys_links = [],
                 solver = None, warm_starting = None, max_iters_speed = None,
                 max_iters_stab = None, tol_force = None, timestepper = None,
                 setup_initial_done = False, steps_done = 0\<rparr>,
      meshes = [], sections = [], nodes = [], elements = [], bodies = [], links = [],
      beam_nodes = [], application = None, trace = []\<rparr>"

section \<open>The library calls of main\<close>

text \<open>
  Each call is a function on the state. A constructor returns the new pointer with the
  state. A setter stores its argument; \<^verbatim>\<open>Add\<close>, \<^verbatim>\<open>AddNode\<close>, \<^verbatim>\<open>AddElement\<close> and \<^verbatim>\<open>push_back\<close>
  append to the container they name.
\<close>

definition Set_G_acc :: "ChVector \<Rightarrow> world \<Rightarrow> world" where
  "Set_G_acc g w = w\<lparr>system := (system w)\<lparr>G_acc := Some g\<rparr>\<rparr>"

definition new_ChMesh :: "world \<Rightarrow> nat \<times> world" where
  "new_ChMesh w =
     (length (meshes w),
      w\<lparr>meshes := meshes w @ [\<lparr>vnodes = [], velements = [], vassets = 0\<rparr>]\<rparr>)"

definition system_Add_mesh :: "nat \<Rightarrow> world \<Rightarrow> world" where
  "system_Add_mesh m w =
     record_event (EvSysAddMesh m) (w\<lparr>system := (system w)\<lparr>sys_meshes := sys_meshes (system w) @ [m]\<rparr>\<rparr>)"

definition system_Add_body :: "nat \<Rightarrow> world \<Rightarrow> world" where
  "system_Add_body b w =
     record_event (EvSysAddBody b) (w\<lparr>system := (system w)\<lparr>sys_bodies := sys_bodies (system w) @ [b]\<rparr>\<rparr>)"

definition system_Add_link :: "nat \<Rightarrow> world \<Rightarrow> world" where
  "system_Add_link l w =
     record_event (EvSysAddLink l) (w\<lparr>system := (system w)\<lparr>sys_links := sys_links (system w) @ [l]\<rparr>\<rparr>)"

definition new_ChBeamSectionCable :: "world \<Rightarrow> nat \<times> world" where
  "new_ChBeamSectionCable w =
     (length (sections w),
      w\<lparr>sections := sections w @
           [\<lparr>diameter = None, young_modulus = None, rayleigh_damping = None\<rparr>]\<rparr>)"

definition SetDiameter :: "nat \<Rightarrow> double \<Rightarrow> world \<Rightarrow> world" where
  "SetDiameter s d w =
     record_event (EvSectionSet s) (w\<lparr>sections := (sections w)[s := (sections w ! s)\<lparr>diameter := Some d\<rparr>]\<rparr>)"

definition SetYoungModulus :: "nat \<Rightarrow> double \<Rightarrow> world \<Rightarrow> world" where
  "SetYoungModulus s e w =
     record_event (EvSectionSet s)
       (w\<lparr>sections := (sections w)[s := (sections w ! s)\<lparr>young_modulus := Some e\<rparr>]\<rparr>)"

definition SetBeamRaleyghDamping :: "nat \<Rightarrow> double \<Rightarrow> world \<Rightarrow> world" where
  "SetBeamRaleyghDamping s r w =
     record_event (EvSectionSet s)
       (w\<lparr>sections := (sections w)[s := (sections w ! s)\<lparr>rayleigh_damping := Some r\<rparr>]\<rparr>)"

definition new_ChNodeFEAxyzD :: "ChVector \<Rightarrow> ChVector \<Rightarrow> world \<Rightarrow> nat \<times> world" where
  "new_ChNodeFEAxyzD position direction w =
     (length (nodes w),
      w\<lparr>nodes := nodes w @ [\<lparr>node_pos = position, node_D = direction, node_fixed = False\<rparr>]\<rparr>)"

definition AddNode :: "nat \<Rightarrow> nat \<Rightarrow> world \<Rightarrow> world" where
  "AddNode m n w =
     record_event (EvMeshAddNode m n)
       (w\<lparr>meshes := (meshes w)[m := (meshes w ! m)\<lparr>vnodes := vnodes (meshes w ! m) @ [n]\<rparr>]\<rparr>)"

definition push_back :: "nat \<Rightarrow> world \<Rightarrow> world" where
  "push_back n w = w\<lparr>beam_nodes := beam_nodes w @ [n]\<rparr>"

definition new_ChElementCableANCF :: "world \<Rightarrow> nat \<times> world" where
  "new_ChElementCableANCF w =
     (length (elements w),
      w\<lparr>elements := elements w @ [\<lparr>elem_nodes = None, elem_section = None\<rparr>]\<rparr>)"

definition SetNodes :: "nat \<Rightarrow> nat \<Rightarrow> nat \<Rightarrow> world \<Rightarrow> world" where
  "SetNodes e a b w =
     w\<lparr>elements := (elements w)[e := (elements w ! e)\<lparr>elem_nodes := Some (a, b)\<rparr>]\<rparr>"

definition SetSection :: "nat \<Rightarrow> nat \<Rightarrow> world \<Rightarrow> world" where
  "SetSection e s w =
     record_event (EvSetSection e s)
       (w\<lparr>elements := (elements w)[e := (elements w ! e)\<lparr>elem_section := Some s\<rparr>]\<rparr>)"

definition AddElement :: "nat \<Rightarrow> nat \<Rightarrow> world \<Rightarrow> world" where
  "AddElement m e w =
     record_event (EvMeshAddElement m e (elem_nodes (elements w ! e)) (vnodes (meshes w ! m)))
       (w\<lparr>meshes := (meshes w)[m := (meshes w ! m)\<lparr>velements := velements (meshes w ! m) @ [e]\<rparr>]\<rparr>)"

definition AddAsset :: "nat \<Rightarrow> world \<Rightarrow> world" where
  "AddAsset m w =
     record_event (EvMeshAddAsset m)
       (w\<lparr>meshes := (meshes w)[m := (meshes w ! m)\<lparr>vassets := Suc (vassets (meshes w ! m))\<rparr>]\<rparr>)"

definition new_ChBody :: "world \<Rightarrow> nat \<times> world" where
  "new_ChBody w =
     (length (bodies w),
      w\<lparr>bodies := bodies w @ [\<lparr>body_fixed = False, body_pos = None, body_shape = None\<rparr>]\<rparr>)"

definition new_ChBodyEasyCylinder ::
    "double \<Rightarrow> double \<Rightarrow> double \<Rightarrow> bool \<Rightarrow> bool \<Rightarrow> world \<Rightarrow> nat \<times> world" where
  "new_ChBodyEasyCylinder r h rho c v w =
     (length (bodies w),
      w\<lparr>bodies := bodies w @
           [\<lparr>body_fixed = False, body_pos = None,
             body_shape = Some \<lparr>cyl_radius = r, cyl_height = h, cyl_density = rho,
                                cyl_collide = c, cyl_visualize = v\<rparr>\<rparr>]\<rparr>)"

definition SetBodyFixed :: "nat \<Rightarrow> bool \<Rightarrow> world \<Rightarrow> world" where
  "SetBodyFixed b f w = w\<lparr>bodies := (bodies w)[b := (bodies w ! b)\<lparr>body_fixed := f\<rparr>]\<rparr>"

definition SetPos :: "nat \<Rightarrow> ChVector \<Rightarrow> world \<Rightarrow> world" where
  "SetPos b p w = w\<lparr>bodies := (bodies w)[b := (bodies w ! b)\<lparr>body_pos := Some p\<rparr>]\<rparr>"

definition GetPos :: "nat \<Rightarrow> world \<Rightarrow> ChVector" where
  "GetPos n w = node_pos (nodes w ! n)"

text \<open>\<^verbatim>\<open>beam_nodes[0]->SetFixed(true)\<close>, the alternative that the comment of step 6 names.\<close>

definition SetFixed :: "nat \<Rightarrow> bool \<Rightarrow> world \<Rightarrow> world" where
  "SetFixed n f w = w\<lparr>nodes := (nodes w)[n := (nodes w ! n)\<lparr>node_fixed := f\<rparr>]\<rparr>"

definition new_ChLinkPointFrame :: "world \<Rightarrow> nat \<times> world" where
  "new_ChLinkPointFrame w =
     (length (links w),
      w\<lparr>links := links w @ [\<lparr>link_kind = PointFrame, link_node = None, link_body = None\<rparr>]\<rparr>)"

definition Initialize :: "nat \<Rightarrow> nat \<Rightarrow> nat \<Rightarrow> world \<Rightarrow> world" where
  "Initialize l n b w =
     w\<lparr>links := (links w)[l := (links w ! l)\<lparr>link_node := Some n, link_body := Some b\<rparr>]\<rparr>"

definition SetSolverType :: "solver_type \<Rightarrow> world \<Rightarrow> world" where
  "SetSolverType t w = w\<lparr>system := (system w)\<lparr>solver := Some t\<rparr>\<rparr>"

definition SetSolverWarmStarting :: "bool \<Rightarrow> world \<Rightarrow> world" where
  "SetSolverWarmStarting b w = w\<lparr>system := (system w)\<lparr>warm_starting := Some b\<rparr>\<rparr>"

definition SetMaxItersSolverSpeed :: "int \<Rightarrow> world \<Rightarrow> world" where
  "SetMaxItersSolverSpeed k w = w\<lparr>system := (system w)\<lparr>max_iters_speed := Some k\<rparr>\<rparr>"

definition SetMaxItersSolverStab :: "int \<Rightarrow> world \<Rightarrow> world" where
  "SetMaxItersSolverStab k w = w\<lparr>system := (system w)\<lparr>max_iters_stab := Some k\<rparr>\<rparr>"

definition SetTolForce :: "double \<Rightarrow> world \<Rightarrow> world" where
  "SetTolForce t w = w\<lparr>system := (system w)\<lparr>tol_force := Some t\<rparr>\<rparr>"

definition SetTimestepperType :: "timestepper_type \<Rightarrow> world \<Rightarrow> world" where
  "SetTimestepperType t w = w\<lparr>system := (system w)\<lparr>timestepper := Some t\<rparr>\<rparr>"

definition new_ChIrrApp :: "world \<Rightarrow> world" where
  "new_ChIrrApp w = w\<lparr>application := Some \<lparr>timestep = None, try_realtime = None\<rparr>\<rparr>"

definition SetTimestep :: "double \<Rightarrow> world \<Rightarrow> world" where
  "SetTimestep h w = w\<lparr>application := map_option (\<lambda>a. a\<lparr>timestep := Some h\<rparr>) (application w)\<rparr>"

definition SetTryRealtime :: "bool \<Rightarrow> world \<Rightarrow> world" where
  "SetTryRealtime b w =
     w\<lparr>application := map_option (\<lambda>a. a\<lparr>try_realtime := Some b\<rparr>) (application w)\<rparr>"

definition SetupInitial :: "world \<Rightarrow> world" where
  "SetupInitial w = record_event EvSetupInitial (w\<lparr>system := (system w)\<lparr>setup_initial_done := True\<rparr>\<rparr>)"

text \<open>
  \<^verbatim>\<open>application.DoStep()\<close> advances the dynamics inside the library. What the step does to
  positions and velocities is not in this repository; the model records that the call
  took place.
\<close>

definition DoStep :: "world \<Rightarrow> world" where
  "DoStep w = record_event EvDoStep (w\<lparr>system := (system w)\<lparr>steps_done := Suc (steps_done (system w))\<rparr>\<rparr>)"

section \<open>main\<close>

definition beam_length :: double where
  "beam_length = dbl (12 / 10)"

definition N_nodes :: int where
  "N_nodes = 16"

text \<open>
  Step 4, the body of the loop over \<^verbatim>\<open>in\<close>: the position
  \<^verbatim>\<open>(length * (in / double(N_nodes - 1)), 0.5, 0)\<close>, the direction \<^verbatim>\<open>(1.0, 0, 0)\<close>, the node,
  its addition to the mesh and to \<^verbatim>\<open>beam_nodes\<close>. The counters are C++ \<^verbatim>\<open>int\<close>s that stay
  below 17, far from wrapping.
\<close>

definition node_position :: "int \<Rightarrow> ChVector" where
  "node_position i =
     ChVector (dmul beam_length (ddiv (double_of_int i) (double_of_int (N_nodes - 1))))
              (dbl (5 / 10))
              (double_of_int 0)"

definition create_node :: "nat \<Rightarrow> int \<Rightarrow> world \<Rightarrow> world" where
  "create_node mesh i w =
     (let position = node_position i;
          direction = ChVector (dbl 1) (double_of_int 0) (double_of_int 0);
          (node, w) = new_ChNodeFEAxyzD position direction w;
          w = AddNode mesh node w
      in push_back node w)"

function node_loop :: "nat \<Rightarrow> int \<Rightarrow> world \<Rightarrow> world" where
  "node_loop mesh i w =
     (if i < N_nodes then node_loop mesh (i + 1) (create_node mesh i w) else w)"
  by pat_completeness auto
termination
  by (relation "measure (\<lambda>(mesh, i, w). nat (N_nodes - i))") auto

declare node_loop.simps [simp del]

text \<open>
  Step 5, the body of the loop over \<^verbatim>\<open>ie\<close>. \<^verbatim>\<open>beam_nodes[ie]\<close> is the unchecked
  \<^verbatim>\<open>operator[]\<close> of \<^verbatim>\<open>std::vector\<close>; the loop bound keeps \<^verbatim>\<open>ie + 1\<close> below the 16 entries.
\<close>

definition create_element :: "nat \<Rightarrow> nat \<Rightarrow> int \<Rightarrow> world \<Rightarrow> world" where
  "create_element mesh beam_material ie w =
     (let (element, w) = new_ChElementCableANCF w;
          w = SetNodes element (beam_nodes w ! nat ie) (beam_nodes w ! nat (ie + 1)) w;
          w = SetSection element beam_material w
      in AddElement mesh element w)"

function element_loop :: "nat \<Rightarrow> nat \<Rightarrow> int \<Rightarrow> world \<Rightarrow> world" where
  "element_loop mesh beam_material ie w =
     (if ie < N_nodes - 1
      then element_loop mesh beam_material (ie + 1) (create_element mesh beam_material ie w)
      else w)"
  by pat_completeness auto
termination
  by (relation "measure (\<lambda>(mesh, beam_material, ie, w). nat (N_nodes - 1 - ie))") auto

declare element_loop.simps [simp del]

text \<open>
  Steps 1 to 10 up to and including \<^verbatim>\<open>system.SetupInitial()\<close>. The calls of steps 7 and 9
  that only set how the scene is drawn (colour scale, glyphs, logo, sky, lights, camera,
  asset binding) touch no object of the system and have no counterpart here; the two
  \<^verbatim>\<open>AddAsset\<close> calls are kept because their receiver is the mesh.
\<close>

definition main_setup :: world where
  "main_setup =
     (let w = Set_G_acc (ChVector (double_of_int 0) (- dbl (981 / 100)) (double_of_int 0))
                world_init;
          (mesh, w) = new_ChMesh w;
          w = system_Add_mesh mesh w;
          (beam_material, w) = new_ChBeamSectionCable w;
          w = SetDiameter beam_material (dbl (1 / 100)) w;
          w = SetYoungModulus beam_material (dbl (1 / 100 * 10 ^ 9)) w;
          w = SetBeamRaleyghDamping beam_material (dbl (1 / 100)) w;
          w = node_loop mesh 0 w;
          w = element_loop mesh beam_material 0 w;
          (truss, w) = new_ChBody w;
          w = SetBodyFixed truss True w;
          w = system_Add_body truss w;
          (constraint_pos, w) = new_ChLinkPointFrame w;
          w = Initialize constraint_pos (beam_nodes w ! 0) truss w;
          w = system_Add_link constraint_pos w;
          (cylinder, w) = new_ChBodyEasyCylinder (dbl (2 / 100)) (dbl (1 / 10))
                            (double_of_int 1000) True True w;
          w = SetPos cylinder
                (vadd (GetPos (last (beam_nodes w)) w)
                      (ChVector (double_of_int 0) (- dbl (5 / 100)) (double_of_int 0))) w;
          w = system_Add_body cylinder w;
          (constraint_cyl, w) = new_ChLinkPointFrame w;
          w = Initialize constraint_cyl (last (beam_nodes w)) cylinder w;
          w = system_Add_link constraint_cyl w;
          w = AddAsset mesh w;
          w = AddAsset mesh w;
          w = SetSolverType MINRES w;
          w = SetSolverWarmStarting True w;
          w = SetMaxItersSolverSpeed 200 w;
          w = SetMaxItersSolverStab 200 w;
          w = SetTolForce (dbl (1 / 10 ^ 10)) w;
          w = SetTimestepperType EULER_IMPLICIT_LINEARIZED w;
          w = new_ChIrrApp w;
          w = SetTimestep (dbl (1 / 100)) w;
          w = SetTryRealtime True w
      in SetupInitial w)"

text \<open>
  The loop \<^verbatim>\<open>while (application.GetDevice()->run())\<close> runs one \<^verbatim>\<open>DoStep\<close> per frame until
  the window is closed; \<open>frames\<close> is the number of times \<^verbatim>\<open>run()\<close> answered true. The
  drawing calls around \<^verbatim>\<open>DoStep\<close> read the state and are left out.
\<close>

fun simulation_loop :: "nat \<Rightarrow> world \<Rightarrow> world" where
  "simulation_loop 0 w = w"
| "simulation_loop (Suc frames) w = simulation_loop frames (DoStep w)"

definition main :: "nat \<Rightarrow> world" where
  "main frames = simulation_loop frames main_setup"

section \<open>What the claims speak about\<close>

text \<open>The node that \<^verbatim>\<open>main\<close> builds in iteration \<open>i\<close> of step 4.\<close>

definition mk_node :: "int \<Rightarrow> ChNodeFEAxyzD" where
  "mk_node i =
     \<lparr>node_pos = node_position i,
      node_D = ChVector (dbl 1) (double_of_int 0) (double_of_int 0),
      node_fixed = False\<rparr>"

text \<open>
  The bodies joined to node \<open>n\<close> by a link that was added to the system, in the order of
  the system's link list.
\<close>

definition attached_bodies :: "world \<Rightarrow> nat \<Rightarrow> nat list" where
  "attached_bodies w n =
     concat (map (\<lambda>l. case (link_node (links w ! l), link_body (links w ! l)) of
                          (Some m, Some b) \<Rightarrow> if m = n then [b] else []
                        | _ \<Rightarrow> [])
                 (sys_links (system w)))"

text \<open>
  How far the origin of body \<open>b\<close> lies below node \<open>n\<close>: the difference of the two stored
  ordinates, taken exactly and taken as the program's double subtraction would.
\<close>

definition drop_below :: "world \<Rightarrow> nat \<Rightarrow> nat \<Rightarrow> rat option" where
  "drop_below w n b = map_option (\<lambda>c. vy (GetPos n w) - vy c) (body_pos (bodies w ! b))"

definition drop_below_double :: "world \<Rightarrow> nat \<Rightarrow> nat \<Rightarrow> double option" where
  "drop_below_double w n b = map_option (\<lambda>c. dsub (vy (GetPos n w)) (vy c)) (body_pos (bodies w ! b))"

text \<open>Additions of a node, an element, a body, a constraint or the mesh itself.\<close>

fun is_addition :: "event \<Rightarrow> bool" where
  "is_addition (EvSysAddMesh m) = True"
| "is_addition (EvSysAddBody b) = True"
| "is_addition (EvSysAddLink l) = True"
| "is_addition (EvMeshAddNode m n) = True"
| "is_addition (EvMeshAddElement m e ab regs) = True"
| "is_addition e = False"

text \<open>
  \<open>all_before P Q tr\<close>: once an event with \<open>Q\<close> has happened, no event with \<open>P\<close> happens
  any more, the \<open>Q\<close> event itself included.
\<close>

definition all_before :: "(event \<Rightarrow> bool) \<Rightarrow> (event \<Rightarrow> bool) \<Rightarrow> event list \<Rightarrow> bool" where
  "all_before P Q tr = list_all (\<lambda>e. \<not> P e) (dropWhile (\<lambda>e. \<not> Q e) tr)"

text \<open>
  \<open>nodes_registered seen tr\<close>: scanning \<open>tr\<close> from the earlier node additions \<open>seen\<close>, every
  element is added with two node pointers that were added to its mesh before and that
  the node list of the mesh holds at the moment of the call.
\<close>

fun nodes_registered :: "(nat \<times> nat) list \<Rightarrow> event list \<Rightarrow> bool" where
  "nodes_registered seen [] = True"
| "nodes_registered seen (EvMeshAddNode m n # tr) = nodes_registered ((m, n) # seen) tr"
| "nodes_registered seen (EvMeshAddElement m e None regs # tr) = False"
| "nodes_registered seen (EvMeshAddElement m e (Some (a, b)) regs # tr) =
     ((m, a) \<in> set seen \<and> (m, b) \<in> set seen \<and> a \<in> set regs \<and> b \<in> set regs
      \<and> nodes_registered seen tr)"
| "nodes_registered seen (e # tr) = nodes_registered seen tr"

text \<open>
  \<open>mesh_closed w m\<close>: every element in the element list of mesh \<open>m\<close> holds two node pointers
  and both nodes are in the node list of the same mesh.
\<close>

definition mesh_closed :: "world \<Rightarrow> nat \<Rightarrow> bool" where
  "mesh_closed w m =
     list_all (\<lambda>e. case elem_nodes (elements w ! e) of
                      Some (a, b) \<Rightarrow> a \<in> set (vnodes (meshes w ! m)) \<and> b \<in> set (vnodes (meshes w ! m))
                    | None \<Rightarrow> False)
              (velements (meshes w ! m))"

text \<open>Writes to a section, and the calls that hand a section to an element.\<close>

fun is_section_write :: "event \<Rightarrow> bool" where
  "is_section_write (EvSectionSet s) = True"
| "is_section_write e = False"

fun is_section_share :: "event \<Rightarrow> bool" where
  "is_section_share (EvSetSection e s) = True"
| "is_section_share e = False"

text \<open>The bounds that the specification asks of a section.\<close>

definition section_valid :: "ChBeamSectionCable \<Rightarrow> bool" where
  "section_valid s =
     (case (diameter s, young_modulus s, rayleigh_damping s) of
        (Some d, Some e, Some r) \<Rightarrow> 0 < d \<and> 0 < e \<and> 0 \<le> r
      | _ \<Rightarrow> False)"

section \<open>The engine behind the calls, as the specification describes it\<close>

text \<open>
  The finite-element library that \<^verbatim>\<open>main\<close> drives is not part of the repository. Where a
  property is about what that engine guarantees, the engine is modelled from the
  specification's data model, lifecycle and error taxonomy.
\<close>

text \<open>
  Modelled from the spec: the error taxonomy of section 7; the library's own error
  reporting is not in the repository.
\<close>

datatype error = InvalidGeometry | InvalidTopology | SolverNonConvergence | SingularSystem

text \<open>
  Modelled from the spec: the System of section 3, which the library implements and the
  repository does not contain. Nodes are kept with position and direction, elements as
  pairs of node indices, bodies by their \<open>fixed\<close> flag, constraints as node and body index.
\<close>

record fe_system =
  fe_nodes :: "(ChVector \<times> ChVector) list"
  fe_elements :: "(nat \<times> nat) list"
  fe_bodies :: "bool list"
  fe_constraints :: "(nat \<times> nat) list"
  fe_finalized :: bool
  fe_node_offsets :: "nat list"
  fe_body_offsets :: "nat list"

text \<open>Modelled from the spec: the System before anything is added (setup phase).\<close>

definition fe_empty :: fe_system where
  "fe_empty = \<lparr>fe_nodes = [], fe_elements = [], fe_bodies = [], fe_constraints = [],
                fe_finalized = False, fe_node_offsets = [], fe_body_offsets = []\<rparr>"

text \<open>
  Modelled from the spec: the four kinds of topology mutation of section 3 (adding a
  node, an element, a body, a constraint), the arguments of the missing mutators.
\<close>

datatype mutation =
    MutNode ChVector ChVector
  | MutElement nat nat
  | MutBody bool
  | MutConstraint nat nat

text \<open>
  Modelled from the spec: the zero-length test of section 4.1 (coincident node
  positions), part of the missing element constructor.
\<close>

definition zero_length :: "ChVector \<Rightarrow> ChVector \<Rightarrow> bool" where
  "zero_length p q = (p = q)"

text \<open>
  Modelled from the spec: the same test on two registered nodes of the System, part of
  the missing element constructor.
\<close>

definition coincident :: "fe_system \<Rightarrow> nat \<Rightarrow> nat \<Rightarrow> bool" where
  "coincident s a b =
     (a < length (fe_nodes s) \<and> b < length (fe_nodes s) \<and>
      zero_length (fst (fe_nodes s ! a)) (fst (fe_nodes s ! b)))"

text \<open>
  Modelled from the spec: the System that holds the nodes of a program state and nothing
  else yet, the state in which the missing element constructor meets the nodes of
  \<^verbatim>\<open>main\<close>.
\<close>

definition fe_with_nodes :: "world \<Rightarrow> fe_system" where
  "fe_with_nodes w = fe_empty\<lparr>fe_nodes := map (\<lambda>n. (node_pos n, node_D n)) (nodes w)\<rparr>"

text \<open>
  Modelled from the spec: the missing mutators of the System. An element of zero length is
  rejected at construction with \<open>InvalidGeometry\<close>; any addition after finalize is rejected
  with \<open>InvalidTopology\<close>; a rejected call returns the state it was given (sections 3, 4.1
  and 7).
\<close>

fun mutate :: "mutation \<Rightarrow> fe_system \<Rightarrow> error option \<times> fe_system" where
  "mutate (MutElement a b) s =
     (if coincident s a b then (Some InvalidGeometry, s)
      else if fe_finalized s then (Some InvalidTopology, s)
      else (None, s\<lparr>fe_elements := fe_elements s @ [(a, b)]\<rparr>))"
| "mutate (MutNode p d) s =
     (if fe_finalized s then (Some InvalidTopology, s)
      else (None, s\<lparr>fe_nodes := fe_nodes s @ [(p, d)]\<rparr>))"
| "mutate (MutBody f) s =
     (if fe_finalized s then (Some InvalidTopology, s)
      else (None, s\<lparr>fe_bodies := fe_bodies s @ [f]\<rparr>))"
| "mutate (MutConstraint n b) s =
     (if fe_finalized s then (Some InvalidTopology, s)
      else (None, s\<lparr>fe_constraints := fe_constraints s @ [(n, b)]\<rparr>))"

text \<open>
  Modelled from the spec: the offset assignment inside the missing \<open>finalize\<close>,
  consecutive offsets for blocks of the given sizes, starting at \<open>k\<close>.
\<close>

fun offsets_from :: "nat \<Rightarrow> nat list \<Rightarrow> nat list" where
  "offsets_from k [] = []"
| "offsets_from k (d # ds) = k # offsets_from (k + d) ds"

text \<open>
  Modelled from the spec: the missing \<open>finalize\<close> of section 3 and 4.5. It assigns the
  global DOF offsets (six per node, six per free body, none for a fixed body, nodes
  first) and locks the topology.
\<close>

definition finalize :: "fe_system \<Rightarrow> fe_system" where
  "finalize s =
     s\<lparr>fe_node_offsets := offsets_from 0 (map (\<lambda>n. 6) (fe_nodes s)),
       fe_body_offsets :=
         offsets_from (6 * length (fe_nodes s)) (map (\<lambda>f. if f then 0 else 6) (fe_bodies s)),
       fe_finalized := True\<rparr>"

text \<open>
  Modelled from the spec: the six scalar DOFs of a node (section 3), three of position
  and three of direction.
\<close>

datatype node_dof = PosX | PosY | PosZ | DirX | DirY | DirZ

text \<open>
  Modelled from the spec: the DOFs that a constraint of each kind holds (section 3: a
  point-to-frame constraint contributes three position-matching equations). The
  constraint classes themselves are library code; the direction constraint is the
  counterpart that the comment of step 6 names.
\<close>

fun link_dofs :: "link_kind \<Rightarrow> node_dof list" where
  "link_dofs PointFrame = [PosX, PosY, PosZ]"
| "link_dofs DirFrame = [DirX, DirY, DirZ]"

text \<open>
  Modelled from the spec: the DOFs of node \<open>n\<close> that are held once the system is assembled,
  by the links of the system that name the node. The assembly is library code. A node
  fixed outright is held in all six, direction included, as the comment of step 6 says
  of \<^verbatim>\<open>SetFixed(true)\<close>.
\<close>

definition constrained_dofs :: "world \<Rightarrow> nat \<Rightarrow> node_dof list" where
  "constrained_dofs w n =
     (if node_fixed (nodes w ! n) then [PosX, PosY, PosZ, DirX, DirY, DirZ]
      else concat (map (\<lambda>l. link_dofs (link_kind (links w ! l)))
                       (filter (\<lambda>l. link_node (links w ! l) = Some n) (sys_links (system w)))))"

text \<open>
  Modelled from the spec: the violation of a point-to-frame constraint (section 4.2), the
  node position minus the pickup point carried to world coordinates. The frames of
  \<^verbatim>\<open>main\<close> are never rotated, so the pickup point is carried by adding the frame's origin.
\<close>

definition violation :: "ChVector \<Rightarrow> ChVector \<Rightarrow> ChVector \<Rightarrow> ChVector" where
  "violation node_at frame_origin pickup = vsub node_at (vadd frame_origin pickup)"

text \<open>
  Modelled from the spec: the cylinder of section 8, a body given by diameter and height,
  whose shape class is library code. The centre of its top face, relative to the
  cylinder's centre, lies half the height up the Y axis, the axis along which \<^verbatim>\<open>main\<close>
  shifts the cylinder.
\<close>

definition top_face_centre :: "easy_cylinder \<Rightarrow> ChVector" where
  "top_face_centre c =
     ChVector (double_of_int 0) (ddiv (cyl_height c) (double_of_int 2)) (double_of_int 0)"

section \<open>Rounding to binary64\<close>

text \<open>
  The exponent that \<open>binade\<close> finds is the one that normalises its argument, and
  \<open>round_even\<close> returns the nearest integer; together they make \<open>dbl\<close> the rounding to
  the nearest double.
\<close>

lemma scale2_powi: "scale2 x e = x * 2 powi e"
proof (cases "0 \<le> e")
  case True
  then show ?thesis by (simp add: scale2_def power_int_def)
next
  case False
  then show ?thesis
    by (simp add: scale2_def power_int_def power_divide)
qed

lemma bitlen_pos: "0 < n \<Longrightarrow> bitlen n = Suc (bitlen (n div 2))"
  by (simp add: bitlen.simps)

lemma bitlen_bounds: "0 < n \<Longrightarrow> 2 ^ (bitlen n - 1) \<le> n \<and> n < 2 ^ bitlen n"
proof (induction n rule: bitlen.induct)
  case (1 n)
  show ?case
  proof (cases "0 < n div 2")
    case False
    with "1.prems" have "n = 1" by arith
    then show ?thesis by (simp add: bitlen.simps)
  next
    case True
    with "1.IH" "1.prems"
    have IH: "2 ^ (bitlen (n div 2) - 1) \<le> n div 2 \<and> n div 2 < 2 ^ bitlen (n div 2)"
      by simp
    from True obtain c where c: "bitlen (n div 2) = Suc c"
      by (auto simp add: bitlen_pos)
    from IH c have "(2 :: int) ^ c \<le> n div 2" and "n div 2 < 2 * 2 ^ c"
      by simp_all
    then have "2 * (2 :: int) ^ c \<le> n \<and> n < 4 * 2 ^ c"
      by arith
    then show ?thesis
      using "1.prems" c by (simp add: bitlen_pos)
  qed
qed

lemma round_even_near: "\<bar>y - of_int m\<bar> < 1 / 2 \<Longrightarrow> round_even y = m"
proof -
  assume near: "\<bar>y - of_int m\<bar> < 1 / 2"
  show ?thesis
  proof (cases "of_int m \<le> y")
    case True
    with near have "\<lfloor>y\<rfloor> = m" by (intro floor_unique) auto
    with near True show ?thesis by (simp add: round_even_def Let_def)
  next
    case False
    with near have "\<lfloor>y\<rfloor> = m - 1" by (intro floor_unique) auto
    with near False show ?thesis by (auto simp add: round_even_def Let_def)
  qed
qed

lemma powi_split: "(2 :: rat) powi (- e') = 2 powi (- e) * 2 powi (e - e')"
  using power_int_add [of "2 :: rat" "- e" "e - e'"] by simp

lemma powi_half: "d \<le> - 1 \<Longrightarrow> (2 :: rat) powi d \<le> 1 / 2"
  using power_int_increasing [of d "- 1" "2 :: rat"] by (simp add: power_int_minus)

lemma normal_less:
  fixes y :: rat
  assumes "2 ^ 52 \<le> y * 2 powi (- e')" and "y * 2 powi (- e) < 2 ^ 53"
  shows "e' \<le> e"
proof (rule ccontr)
  assume "\<not> e' \<le> e"
  then have "e - e' \<le> - 1" by simp
  then have half: "(2 :: rat) powi (e - e') \<le> 1 / 2" by (rule powi_half)
  have pos: "0 < y * 2 powi (- e)"
  proof -
    have "(0 :: rat) < 2 powi (- e')" by simp
    moreover have "(0 :: rat) < 2 powi (- e)" by simp
    moreover from assms(1) have "0 < y * 2 powi (- e')" by simp
    ultimately show ?thesis
      by (meson zero_less_mult_iff zero_less_mult_pos2)
  qed
  have "y * 2 powi (- e') = (y * 2 powi (- e)) * 2 powi (e - e')"
    by (simp add: powi_split [of e' e])
  also have "\<dots> \<le> (y * 2 powi (- e)) * (1 / 2)"
    using half pos by (intro mult_left_mono) simp_all
  also have "\<dots> < 2 ^ 52"
    using assms(2) by simp
  finally show False using assms(1) by simp
qed

lemma normal_unique:
  fixes y :: rat
  assumes "2 ^ 52 \<le> y * 2 powi (- e)" "y * 2 powi (- e) < 2 ^ 53"
    and "2 ^ 52 \<le> y * 2 powi (- e')" "y * 2 powi (- e') < 2 ^ 53"
  shows "e = e'"
  using normal_less [OF assms(1) assms(4)] normal_less [OF assms(3) assms(2)] by simp


lemma bitlen_scale:
  assumes "0 < n"
  shows "(2 :: rat) powi (int (bitlen n) - 1) \<le> of_int n"
    and "(of_int n :: rat) < 2 powi (int (bitlen n))"
proof -
  from assms obtain c where c: "bitlen n = Suc c"
    by (auto simp add: bitlen_pos)
  from bitlen_bounds [OF assms] c have "2 ^ c \<le> n" and "n < 2 ^ Suc c"
    by simp_all
  then have "(of_int (2 ^ c) :: rat) \<le> of_int n" and "(of_int n :: rat) < of_int (2 ^ Suc c)"
    by (simp_all only: of_int_le_iff of_int_less_iff)
  then have le: "(2 :: rat) ^ c \<le> of_int n" and less: "(of_int n :: rat) < 2 ^ Suc c"
    by simp_all
  have "int (bitlen n) - 1 = int c"
    using c by simp
  with le show "(2 :: rat) powi (int (bitlen n) - 1) \<le> of_int n"
    by (simp only: power_int_of_nat)
  from less c show "(of_int n :: rat) < 2 powi (int (bitlen n))"
    by (simp only: power_int_of_nat)
qed

lemma binade_eq:
  assumes "x \<noteq> 0"
    and lo: "2 ^ 52 \<le> \<bar>x\<bar> * 2 powi (- e)" and hi: "\<bar>x\<bar> * 2 powi (- e) < 2 ^ 53"
    and sub: "- 1074 \<le> e"
  shows "binade x = e"
proof -
  obtain p q where pq: "quotient_of \<bar>x\<bar> = (p, q)"
    by force
  then have q: "0 < q" and x: "\<bar>x\<bar> = of_int p / of_int q"
    by (simp_all add: quotient_of_denom_pos quotient_of_div)
  from assms(1) have "0 < \<bar>x\<bar>"
    by simp
  with x q have p: "0 < p"
    by (simp add: zero_less_divide_iff)
  define k where "k = int (bitlen p) - int (bitlen q)"
  define s where "s = \<bar>x\<bar> * 2 powi (53 - k)"
  have P: "(0 :: rat) < of_int p" and Q: "(0 :: rat) < of_int q"
    using p q by simp_all
  have "\<bar>x\<bar> < 2 powi (int (bitlen p)) / 2 powi (int (bitlen q) - 1)"
    unfolding x using P bitlen_scale(2) [OF p] bitlen_scale(1) [OF q]
    by (intro frac_less) simp_all
  also have "\<dots> = 2 powi (k + 1)"
    using power_int_diff [of "2 :: rat" "int (bitlen p)" "int (bitlen q) - 1"]
    by (simp add: k_def algebra_simps)
  finally have "s < 2 powi (k + 1) * 2 powi (53 - k)"
    unfolding s_def by (intro mult_strict_right_mono) simp_all
  also have "\<dots> = 2 ^ 54"
    by (simp flip: power_int_add)
  finally have upper: "s < 2 ^ 54" .
  have "2 powi (int (bitlen p) - 1) / 2 powi (int (bitlen q)) < \<bar>x\<bar>"
    unfolding x using Q bitlen_scale(1) [OF p] bitlen_scale(2) [OF q]
    by (intro frac_less2) simp_all
  moreover have "2 powi (int (bitlen p) - 1) / 2 powi (int (bitlen q)) = (2 :: rat) powi (k - 1)"
    using power_int_diff [of "2 :: rat" "int (bitlen p) - 1" "int (bitlen q)"]
    by (simp add: k_def algebra_simps)
  ultimately have "2 powi (k - 1) * 2 powi (53 - k) < s"
    unfolding s_def by (intro mult_strict_right_mono) simp_all
  moreover have "(2 :: rat) powi (k - 1) * 2 powi (53 - k) = 2 ^ 52"
    by (simp flip: power_int_add)
  ultimately have lower: "2 ^ 52 < s"
    by simp
  define e0 where "e0 = (if 2 ^ 53 \<le> s then k - 52 else k - 53)"
  have half: "\<bar>x\<bar> * 2 powi (52 - k) = s / 2"
  proof -
    have "(2 :: rat) powi (53 - k) = 2 powi (52 - k + 1)"
      by (simp add: algebra_simps)
    also have "\<dots> = 2 powi (52 - k) * 2"
      by (rule power_int_add_1) simp
    finally show ?thesis by (simp add: s_def)
  qed
  have "2 ^ 52 \<le> \<bar>x\<bar> * 2 powi (- e0) \<and> \<bar>x\<bar> * 2 powi (- e0) < 2 ^ 53"
  proof (cases "2 ^ 53 \<le> s")
    case True
    then have "- e0 = 52 - k" by (simp add: e0_def)
    with True upper half show ?thesis by simp
  next
    case False
    then have "- e0 = 53 - k" by (simp add: e0_def)
    with False lower show ?thesis by (simp add: s_def)
  qed
  then have "e0 = e"
    using lo hi by (intro normal_unique [of "\<bar>x\<bar>"]) simp_all
  moreover have "binade x = max e0 (- 1074)"
    by (simp add: binade_def pq Let_def k_def e0_def s_def scale2_powi)
  ultimately show ?thesis using sub by simp
qed

text \<open>
  A rounding can be checked without running the search for the exponent: \<open>r\<close> is the
  double of \<open>x\<close> when \<open>r\<close> is \<open>m\<close> times \<open>2\<close> to the \<open>e\<close>, the exponent \<open>e\<close> puts \<open>x\<close> in
  the range of 53-bit significands and \<open>m\<close> is the integer strictly nearest to the scaled
  \<open>x\<close>.
\<close>

lemma dbl_eqI:
  assumes "x \<noteq> 0"
    and "2 ^ 52 \<le> scale2 \<bar>x\<bar> (- e)" and "scale2 \<bar>x\<bar> (- e) < 2 ^ 53" and "- 1074 \<le> e"
    and "\<bar>scale2 x (- e) - of_int m\<bar> < 1 / 2"
    and "r = scale2 (of_int m) e"
  shows "dbl x = r"
proof -
  have "binade x = e"
    using assms(1-4) by (intro binade_eq) (simp_all add: scale2_powi)
  with assms(1) assms(6) round_even_near [OF assms(5)] show ?thesis
    by (simp add: dbl_def Let_def)
qed

section \<open>Running main\<close>

lemmas api_defs = Set_G_acc_def new_ChMesh_def system_Add_mesh_def system_Add_body_def
  system_Add_link_def new_ChBeamSectionCable_def SetDiameter_def SetYoungModulus_def
  SetBeamRaleyghDamping_def new_ChNodeFEAxyzD_def AddNode_def push_back_def
  new_ChElementCableANCF_def SetNodes_def SetSection_def AddElement_def AddAsset_def
  new_ChBody_def new_ChBodyEasyCylinder_def SetBodyFixed_def SetPos_def GetPos_def
  new_ChLinkPointFrame_def Initialize_def SetSolverType_def SetSolverWarmStarting_def
  SetMaxItersSolverSpeed_def SetMaxItersSolverStab_def SetTolForce_def SetTimestepperType_def
  new_ChIrrApp_def SetTimestep_def SetTryRealtime_def SetupInitial_def record_event_def

text \<open>
  The state when \<^verbatim>\<open>SetupInitial\<close> returns, field by field. The doubles are left as the
  expressions of the source; their values are computed further down.
\<close>

lemma main_setup_state:
  "main_setup =
     \<lparr>system =
        \<lparr>G_acc = Some (ChVector (double_of_int 0) (- dbl (981 / 100)) (double_of_int 0)),
         sys_meshes = [0], sys_bodies = [0, 1], sys_links = [0, 1],
         solver = Some MINRES, warm_starting = Some True, max_iters_speed = Some 200,
         max_iters_stab = Some 200, tol_force = Some (dbl (1 / 10 ^ 10)),
         timestepper = Some EULER_IMPLICIT_LINEARIZED,
         setup_initial_done = True, steps_done = 0\<rparr>,
      meshes = [\<lparr>vnodes = [0..<16], velements = [0..<15], vassets = 2\<rparr>],
      sections =
        [\<lparr>diameter = Some (dbl (1 / 100)), young_modulus = Some (dbl (1 / 100 * 10 ^ 9)),
          rayleigh_damping = Some (dbl (1 / 100))\<rparr>],
      nodes = map (\<lambda>i. mk_node (int i)) [0..<16],
      elements = map (\<lambda>i. \<lparr>elem_nodes = Some (i, Suc i), elem_section = Some 0\<rparr>) [0..<15],
      bodies =
        [\<lparr>body_fixed = True, body_pos = None, body_shape = None\<rparr>,
         \<lparr>body_fixed = False,
          body_pos = Some (vadd (node_position 15)
                       (ChVector (double_of_int 0) (- dbl (5 / 100)) (double_of_int 0))),
          body_shape = Some \<lparr>cyl_radius = dbl (2 / 100), cyl_height = dbl (1 / 10),
                             cyl_density = double_of_int 1000, cyl_collide = True,
                             cyl_visualize = True\<rparr>\<rparr>],
      links =
        [\<lparr>link_kind = PointFrame, link_node = Some 0, link_body = Some 0\<rparr>,
         \<lparr>link_kind = PointFrame, link_node = Some 15, link_body = Some 1\<rparr>],
      beam_nodes = [0..<16],
      application = Some \<lparr>timestep = Some (dbl (1 / 100)), try_realtime = Some True\<rparr>,
      trace =
        [EvSysAddMesh 0, EvSectionSet 0, EvSectionSet 0, EvSectionSet 0]
        @ map (EvMeshAddNode 0) [0..<16]
        @ concat (map (\<lambda>i. [EvSetSection i 0,
                              EvMeshAddElement 0 i (Some (i, Suc i)) [0..<16]]) [0..<15])
        @ [EvSysAddBody 0, EvSysAddLink 0, EvSysAddBody 1, EvSysAddLink 1,
           EvMeshAddAsset 0, EvMeshAddAsset 0, EvSetupInitial]\<rparr>"
  unfolding main_setup_def case_prod_beta
  by (simp add: world_init_def node_loop.simps element_loop.simps
        create_node_def [unfolded case_prod_beta] create_element_def [unfolded case_prod_beta]
        api_defs N_nodes_def mk_node_def Let_def eval_nat_numeral cong: let_weak_cong)

text \<open>The frames of the simulation loop add \<^verbatim>\<open>DoStep\<close> events and count steps; nothing else.\<close>

lemma simulation_loop_state:
  "simulation_loop frames w =
     w\<lparr>system := (system w)\<lparr>steps_done := steps_done (system w) + frames\<rparr>,
       trace := trace w @ replicate frames EvDoStep\<rparr>"
proof (induction frames arbitrary: w)
  case 0
  show ?case by simp
next
  case (Suc frames)
  show ?case
    by (simp add: Suc.IH DoStep_def record_event_def replicate_app_Cons_same)
qed

lemma main_fields:
  "meshes (main frames) = meshes main_setup"
  "sections (main frames) = sections main_setup"
  "nodes (main frames) = nodes main_setup"
  "elements (main frames) = elements main_setup"
  "bodies (main frames) = bodies main_setup"
  "links (main frames) = links main_setup"
  "beam_nodes (main frames) = beam_nodes main_setup"
  "application (main frames) = application main_setup"
  "trace (main frames) = trace main_setup @ replicate frames EvDoStep"
  "system (main frames) = (system main_setup)\<lparr>steps_done := frames\<rparr>"
  by (simp_all add: main_def simulation_loop_state main_setup_state)

subsection \<open>The doubles of main\<close>

text \<open>Every rounding that \<^verbatim>\<open>main\<close> and the claims about it perform, evaluated.\<close>

lemma dbl_zero: "dbl 0 = 0"
  by (simp add: dbl_def)

lemma dbl_values:
  "dbl (6 / 5) = 5404319552844595 / 4503599627370496"
  "dbl 1 = 1"
  "dbl 2 = 2"
  "dbl 3 = 3"
  "dbl 4 = 4"
  "dbl 5 = 5"
  "dbl 6 = 6"
  "dbl 7 = 7"
  "dbl 8 = 8"
  "dbl 9 = 9"
  "dbl 10 = 10"
  "dbl 11 = 11"
  "dbl 12 = 12"
  "dbl 13 = 13"
  "dbl 14 = 14"
  "dbl 15 = 15"
  "dbl 1000 = 1000"
  "dbl (1 / 15) = 4803839602528529 / 72057594037927936"
  "dbl (2 / 15) = 4803839602528529 / 36028797018963968"
  "dbl (1 / 5) = 3602879701896397 / 18014398509481984"
  "dbl (4 / 15) = 4803839602528529 / 18014398509481984"
  "dbl (1 / 3) = 6004799503160661 / 18014398509481984"
  "dbl (2 / 5) = 3602879701896397 / 9007199254740992"
  "dbl (7 / 15) = 4203359652212463 / 9007199254740992"
  "dbl (8 / 15) = 4803839602528529 / 9007199254740992"
  "dbl (3 / 5) = 5404319552844595 / 9007199254740992"
  "dbl (2 / 3) = 6004799503160661 / 9007199254740992"
  "dbl (11 / 15) = 6605279453476727 / 9007199254740992"
  "dbl (4 / 5) = 3602879701896397 / 4503599627370496"
  "dbl (13 / 15) = 1951559838527215 / 2251799813685248"
  "dbl (14 / 15) = 4203359652212463 / 4503599627370496"
  "dbl (25961484292674136821596590950755 / 324518553658426726783156020576256) = 5764607523034235 / 72057594037927936"
  "dbl (25961484292674136821596590950755 / 162259276829213363391578010288128) = 5764607523034235 / 36028797018963968"
  "dbl (19471113219505603967277331424215 / 81129638414606681695789005144064) = 1080863910568919 / 4503599627370496"
  "dbl (25961484292674136821596590950755 / 81129638414606681695789005144064) = 5764607523034235 / 18014398509481984"
  "dbl (32451855365842669675915850477295 / 81129638414606681695789005144064) = 7205759403792793 / 18014398509481984"
  "dbl (19471113219505603967277331424215 / 40564819207303340847894502572032) = 1080863910568919 / 2251799813685248"
  "dbl (22716298756089870394436961187485 / 40564819207303340847894502572032) = 5044031582654955 / 9007199254740992"
  "dbl (25961484292674136821596590950755 / 40564819207303340847894502572032) = 5764607523034235 / 9007199254740992"
  "dbl (29206669829258403248756220714025 / 40564819207303340847894502572032) = 3242591731706757 / 4503599627370496"
  "dbl (32451855365842669675915850477295 / 40564819207303340847894502572032) = 7205759403792793 / 9007199254740992"
  "dbl (35697040902426936103075480240565 / 40564819207303340847894502572032) = 990791918021509 / 1125899906842624"
  "dbl (19471113219505603967277331424215 / 20282409603651670423947251286016) = 1080863910568919 / 1125899906842624"
  "dbl (10546852993898868590428573152925 / 10141204801825835211973625643008) = 1170935903116329 / 1125899906842624"
  "dbl (22716298756089870394436961187485 / 20282409603651670423947251286016) = 5044031582654955 / 4503599627370496"
  "dbl (5404319552844595 / 4503599627370496) = 5404319552844595 / 4503599627370496"
  "dbl (1 / 2) = 1 / 2"
  "dbl (1 / 100) = 5764607523034235 / 576460752303423488"
  "dbl 10000000 = 10000000"
  "dbl (981 / 100) = 5522539043063071 / 562949953421312"
  "dbl (1 / 50) = 5764607523034235 / 288230376151711744"
  "dbl (1 / 10) = 3602879701896397 / 36028797018963968"
  "dbl (1 / 20) = 3602879701896397 / 72057594037927936"
  "dbl (1 / 10000000000) = 7737125245533627 / 77371252455336267181195264"
  "dbl (2 / 25) = 5764607523034235 / 72057594037927936"
  "dbl (9 / 20) = 8106479329266893 / 18014398509481984"
  "dbl (32425917317067571 / 72057594037927936) = 8106479329266893 / 18014398509481984"
  "dbl (3602879701896397 / 72057594037927936) = 3602879701896397 / 72057594037927936"
  "dbl (36028797018963969 / 72057594037927936) = 1 / 2"
  "dbl (900719925474099 / 18014398509481984) = 900719925474099 / 18014398509481984"
  "dbl (2882303761517117 / 36028797018963968) = 2882303761517117 / 36028797018963968"
  "dbl (8106479329266893 / 18014398509481984) = 8106479329266893 / 18014398509481984"
proof -
  show "dbl (6 / 5) = 5404319552844595 / 4503599627370496"
    by (rule dbl_eqI [of _ "- 52" 5404319552844595]) (simp_all add: scale2_def)
  show "dbl 1 = 1"
    by (rule dbl_eqI [of _ "- 52" 4503599627370496]) (simp_all add: scale2_def)
  show "dbl 2 = 2"
    by (rule dbl_eqI [of _ "- 51" 4503599627370496]) (simp_all add: scale2_def)
  show "dbl 3 = 3"
    by (rule dbl_eqI [of _ "- 51" 6755399441055744]) (simp_all add: scale2_def)
  show "dbl 4 = 4"
    by (rule dbl_eqI [of _ "- 50" 4503599627370496]) (simp_all add: scale2_def)
  show "dbl 5 = 5"
    by (rule dbl_eqI [of _ "- 50" 5629499534213120]) (simp_all add: scale2_def)
  show "dbl 6 = 6"
    by (rule dbl_eqI [of _ "- 50" 6755399441055744]) (simp_all add: scale2_def)
  show "dbl 7 = 7"
    by (rule dbl_eqI [of _ "- 50" 7881299347898368]) (simp_all add: scale2_def)
  show "dbl 8 = 8"
    by (rule dbl_eqI [of _ "- 49" 4503599627370496]) (simp_all add: scale2_def)
  show "dbl 9 = 9"
    by (rule dbl_eqI [of _ "- 49" 5066549580791808]) (simp_all add: scale2_def)
  show "dbl 10 = 10"
    by (rule dbl_eqI [of _ "- 49" 5629499534213120]) (simp_all add: scale2_def)
  show "dbl 11 = 11"
    by (rule dbl_eqI [of _ "- 49" 6192449487634432]) (simp_all add: scale2_def)
  show "dbl 12 = 12"
    by (rule dbl_eqI [of _ "- 49" 6755399441055744]) (simp_all add: scale2_def)
  show "dbl 13 = 13"
    by (rule dbl_eqI [of _ "- 49" 7318349394477056]) (simp_all add: scale2_def)
  show "dbl 14 = 14"
    by (rule dbl_eqI [of _ "- 49" 7881299347898368]) (simp_all add: scale2_def)
  show "dbl 15 = 15"
    by (rule dbl_eqI [of _ "- 49" 8444249301319680]) (simp_all add: scale2_def)
  show "dbl 1000 = 1000"
    by (rule dbl_eqI [of _ "- 43" 8796093022208000]) (simp_all add: scale2_def)
  show "dbl (1 / 15) = 4803839602528529 / 72057594037927936"
    by (rule dbl_eqI [of _ "- 56" 4803839602528529]) (simp_all add: scale2_def)
  show "dbl (2 / 15) = 4803839602528529 / 36028797018963968"
    by (rule dbl_eqI [of _ "- 55" 4803839602528529]) (simp_all add: scale2_def)
  show "dbl (1 / 5) = 3602879701896397 / 18014398509481984"
    by (rule dbl_eqI [of _ "- 55" 7205759403792794]) (simp_all add: scale2_def)
  show "dbl (4 / 15) = 4803839602528529 / 18014398509481984"
    by (rule dbl_eqI [of _ "- 54" 4803839602528529]) (simp_all add: scale2_def)
  show "dbl (1 / 3) = 6004799503160661 / 18014398509481984"
    by (rule dbl_eqI [of _ "- 54" 6004799503160661]) (simp_all add: scale2_def)
  show "dbl (2 / 5) = 3602879701896397 / 9007199254740992"
    by (rule dbl_eqI [of _ "- 54" 7205759403792794]) (simp_all add: scale2_def)
  show "dbl (7 / 15) = 4203359652212463 / 9007199254740992"
    by (rule dbl_eqI [of _ "- 54" 8406719304424926]) (simp_all add: scale2_def)
  show "dbl (8 / 15) = 4803839602528529 / 9007199254740992"
    by (rule dbl_eqI [of _ "- 53" 4803839602528529]) (simp_all add: scale2_def)
  show "dbl (3 / 5) = 5404319552844595 / 9007199254740992"
    by (rule dbl_eqI [of _ "- 53" 5404319552844595]) (simp_all add: scale2_def)
  show "dbl (2 / 3) = 6004799503160661 / 9007199254740992"
    by (rule dbl_eqI [of _ "- 53" 6004799503160661]) (simp_all add: scale2_def)
  show "dbl (11 / 15) = 6605279453476727 / 9007199254740992"
    by (rule dbl_eqI [of _ "- 53" 6605279453476727]) (simp_all add: scale2_def)
  show "dbl (4 / 5) = 3602879701896397 / 4503599627370496"
    by (rule dbl_eqI [of _ "- 53" 7205759403792794]) (simp_all add: scale2_def)
  show "dbl (13 / 15) = 1951559838527215 / 2251799813685248"
    by (rule dbl_eqI [of _ "- 53" 7806239354108860]) (simp_all add: scale2_def)
  show "dbl (14 / 15) = 4203359652212463 / 4503599627370496"
    by (rule dbl_eqI [of _ "- 53" 8406719304424926]) (simp_all add: scale2_def)
  show "dbl (25961484292674136821596590950755 / 324518553658426726783156020576256) = 5764607523034235 / 72057594037927936"
    by (rule dbl_eqI [of _ "- 56" 5764607523034235]) (simp_all add: scale2_def)
  show "dbl (25961484292674136821596590950755 / 162259276829213363391578010288128) = 5764607523034235 / 36028797018963968"
    by (rule dbl_eqI [of _ "- 55" 5764607523034235]) (simp_all add: scale2_def)
  show "dbl (19471113219505603967277331424215 / 81129638414606681695789005144064) = 1080863910568919 / 4503599627370496"
    by (rule dbl_eqI [of _ "- 55" 8646911284551352]) (simp_all add: scale2_def)
  show "dbl (25961484292674136821596590950755 / 81129638414606681695789005144064) = 5764607523034235 / 18014398509481984"
    by (rule dbl_eqI [of _ "- 54" 5764607523034235]) (simp_all add: scale2_def)
  show "dbl (32451855365842669675915850477295 / 81129638414606681695789005144064) = 7205759403792793 / 18014398509481984"
    by (rule dbl_eqI [of _ "- 54" 7205759403792793]) (simp_all add: scale2_def)
  show "dbl (19471113219505603967277331424215 / 40564819207303340847894502572032) = 1080863910568919 / 2251799813685248"
    by (rule dbl_eqI [of _ "- 54" 8646911284551352]) (simp_all add: scale2_def)
  show "dbl (22716298756089870394436961187485 / 40564819207303340847894502572032) = 5044031582654955 / 9007199254740992"
    by (rule dbl_eqI [of _ "- 53" 5044031582654955]) (simp_all add: scale2_def)
  show "dbl (25961484292674136821596590950755 / 40564819207303340847894502572032) = 5764607523034235 / 9007199254740992"
    by (rule dbl_eqI [of _ "- 53" 5764607523034235]) (simp_all add: scale2_def)
  show "dbl (29206669829258403248756220714025 / 40564819207303340847894502572032) = 3242591731706757 / 4503599627370496"
    by (rule dbl_eqI [of _ "- 53" 6485183463413514]) (simp_all add: scale2_def)
  show "dbl (32451855365842669675915850477295 / 40564819207303340847894502572032) = 7205759403792793 / 9007199254740992"
    by (rule dbl_eqI [of _ "- 53" 7205759403792793]) (simp_all add: scale2_def)
  show "dbl (35697040902426936103075480240565 / 40564819207303340847894502572032) = 990791918021509 / 1125899906842624"
    by (rule dbl_eqI [of _ "- 53" 7926335344172072]) (simp_all add: scale2_def)
  show "dbl (19471113219505603967277331424215 / 20282409603651670423947251286016) = 1080863910568919 / 1125899906842624"
    by (rule dbl_eqI [of _ "- 53" 8646911284551352]) (simp_all add: scale2_def)
  show "dbl (10546852993898868590428573152925 / 10141204801825835211973625643008) = 1170935903116329 / 1125899906842624"
    by (rule dbl_eqI [of _ "- 52" 4683743612465316]) (simp_all add: scale2_def)
  show "dbl (22716298756089870394436961187485 / 20282409603651670423947251286016) = 5044031582654955 / 4503599627370496"
    by (rule dbl_eqI [of _ "- 52" 5044031582654955]) (simp_all add: scale2_def)
  show "dbl (5404319552844595 / 4503599627370496) = 5404319552844595 / 4503599627370496"
    by (rule dbl_eqI [of _ "- 52" 5404319552844595]) (simp_all add: scale2_def)
  show "dbl (1 / 2) = 1 / 2"
    by (rule dbl_eqI [of _ "- 53" 4503599627370496]) (simp_all add: scale2_def)
  show "dbl (1 / 100) = 5764607523034235 / 576460752303423488"
    by (rule dbl_eqI [of _ "- 59" 5764607523034235]) (simp_all add: scale2_def)
  show "dbl 10000000 = 10000000"
    by (rule dbl_eqI [of _ "- 29" 5368709120000000]) (simp_all add: scale2_def)
  show "dbl (981 / 100) = 5522539043063071 / 562949953421312"
    by (rule dbl_eqI [of _ "- 49" 5522539043063071]) (simp_all add: scale2_def)
  show "dbl (1 / 50) = 5764607523034235 / 288230376151711744"
    by (rule dbl_eqI [of _ "- 58" 5764607523034235]) (simp_all add: scale2_def)
  show "dbl (1 / 10) = 3602879701896397 / 36028797018963968"
    by (rule dbl_eqI [of _ "- 56" 7205759403792794]) (simp_all add: scale2_def)
  show "dbl (1 / 20) = 3602879701896397 / 72057594037927936"
    by (rule dbl_eqI [of _ "- 57" 7205759403792794]) (simp_all add: scale2_def)
  show "dbl (1 / 10000000000) = 7737125245533627 / 77371252455336267181195264"
    by (rule dbl_eqI [of _ "- 86" 7737125245533627]) (simp_all add: scale2_def)
  show "dbl (2 / 25) = 5764607523034235 / 72057594037927936"
    by (rule dbl_eqI [of _ "- 56" 5764607523034235]) (simp_all add: scale2_def)
  show "dbl (9 / 20) = 8106479329266893 / 18014398509481984"
    by (rule dbl_eqI [of _ "- 54" 8106479329266893]) (simp_all add: scale2_def)
  show "dbl (32425917317067571 / 72057594037927936) = 8106479329266893 / 18014398509481984"
    by (rule dbl_eqI [of _ "- 54" 8106479329266893]) (simp_all add: scale2_def)
  show "dbl (3602879701896397 / 72057594037927936) = 3602879701896397 / 72057594037927936"
    by (rule dbl_eqI [of _ "- 57" 7205759403792794]) (simp_all add: scale2_def)
  show "dbl (36028797018963969 / 72057594037927936) = 1 / 2"
    by (rule dbl_eqI [of _ "- 53" 4503599627370496]) (simp_all add: scale2_def)
  show "dbl (900719925474099 / 18014398509481984) = 900719925474099 / 18014398509481984"
    by (rule dbl_eqI [of _ "- 57" 7205759403792792]) (simp_all add: scale2_def)
  show "dbl (2882303761517117 / 36028797018963968) = 2882303761517117 / 36028797018963968"
    by (rule dbl_eqI [of _ "- 56" 5764607523034234]) (simp_all add: scale2_def)
  show "dbl (8106479329266893 / 18014398509481984) = 8106479329266893 / 18014398509481984"
    by (rule dbl_eqI [of _ "- 54" 8106479329266893]) (simp_all add: scale2_def)
qed


lemmas double_ops = dadd_def dsub_def dmul_def ddiv_def double_of_int_def vadd_def vsub_def

lemma node_position_values:
  "node_position 0 = ChVector 0 (1 / 2) 0"
  "node_position 1 = ChVector (5764607523034235 / 72057594037927936) (1 / 2) 0"
  "node_position 2 = ChVector (5764607523034235 / 36028797018963968) (1 / 2) 0"
  "node_position 3 = ChVector (1080863910568919 / 4503599627370496) (1 / 2) 0"
  "node_position 4 = ChVector (5764607523034235 / 18014398509481984) (1 / 2) 0"
  "node_position 5 = ChVector (7205759403792793 / 18014398509481984) (1 / 2) 0"
  "node_position 6 = ChVector (1080863910568919 / 2251799813685248) (1 / 2) 0"
  "node_position 7 = ChVector (5044031582654955 / 9007199254740992) (1 / 2) 0"
  "node_position 8 = ChVector (5764607523034235 / 9007199254740992) (1 / 2) 0"
  "node_position 9 = ChVector (3242591731706757 / 4503599627370496) (1 / 2) 0"
  "node_position 10 = ChVector (7205759403792793 / 9007199254740992) (1 / 2) 0"
  "node_position 11 = ChVector (990791918021509 / 1125899906842624) (1 / 2) 0"
  "node_position 12 = ChVector (1080863910568919 / 1125899906842624) (1 / 2) 0"
  "node_position 13 = ChVector (1170935903116329 / 1125899906842624) (1 / 2) 0"
  "node_position 14 = ChVector (5044031582654955 / 4503599627370496) (1 / 2) 0"
  "node_position 15 = ChVector (5404319552844595 / 4503599627370496) (1 / 2) 0"
  by (simp_all add: node_position_def beam_length_def N_nodes_def double_ops dbl_zero dbl_values)

section \<open>Order of events\<close>

lemma all_before_sound:
  "all_before P Q tr \<Longrightarrow> i < length tr \<Longrightarrow> j < length tr \<Longrightarrow> P (tr ! i) \<Longrightarrow> Q (tr ! j)
   \<Longrightarrow> i < j"
proof (induction tr arbitrary: i j)
  case Nil
  then show ?case by simp
next
  case (Cons e tr)
  show ?case
  proof (cases "Q e")
    case True
    with Cons.prems(1) have "list_all (\<lambda>x. \<not> P x) (e # tr)"
      by (simp add: all_before_def)
    with Cons.prems(2) have "\<not> P ((e # tr) ! i)"
      by (simp add: list_all_length)
    with Cons.prems(4) show ?thesis by simp
  next
    case False
    with Cons.prems(1) have rest: "all_before P Q tr"
      by (simp add: all_before_def)
    from False Cons.prems(5) obtain j' where j: "j = Suc j'"
      by (cases j) auto
    show ?thesis
    proof (cases i)
      case 0
      with j show ?thesis by simp
    next
      case (Suc i')
      with j Cons.prems Cons.IH [OF rest, of i' j'] show ?thesis by simp
    qed
  qed
qed

lemma all_before_steps:
  "all_before P Q tr \<Longrightarrow> \<not> P EvDoStep \<Longrightarrow> \<exists>e\<in>set tr. Q e
   \<Longrightarrow> all_before P Q (tr @ replicate frames EvDoStep)"
  by (auto simp add: all_before_def dropWhile_append1 list_all_iff)

lemma nodes_registered_steps:
  "nodes_registered seen (tr @ replicate frames EvDoStep) = nodes_registered seen tr"
proof (induction seen tr rule: nodes_registered.induct)
  case (1 seen)
  show ?case by (induction frames) simp_all
qed simp_all

lemma nodes_registered_head:
  "nodes_registered seen (EvMeshAddElement m e ab regs # tr) \<Longrightarrow>
   \<exists>a b. ab = Some (a, b) \<and> (m, a) \<in> set seen \<and> (m, b) \<in> set seen
     \<and> a \<in> set regs \<and> b \<in> set regs"
  by (cases ab) auto

lemma nodes_registered_tail:
  "nodes_registered seen (ev # tr) \<Longrightarrow>
   nodes_registered (case ev of EvMeshAddNode m n \<Rightarrow> (m, n) # seen | _ \<Rightarrow> seen) tr"
  by (cases "(seen, ev # tr)" rule: nodes_registered.cases) auto

lemma seen_after_event:
  "x \<in> set (case ev of EvMeshAddNode m n \<Rightarrow> (m, n) # seen | _ \<Rightarrow> seen) \<Longrightarrow>
   x \<in> set seen \<or> ev = EvMeshAddNode (fst x) (snd x)"
  by (cases ev) auto

lemma nodes_registered_sound:
  "nodes_registered seen tr \<Longrightarrow> k < length tr \<Longrightarrow> tr ! k = EvMeshAddElement m e ab regs \<Longrightarrow>
   \<exists>a b. ab = Some (a, b) \<and> a \<in> set regs \<and> b \<in> set regs
     \<and> ((m, a) \<in> set seen \<or> (\<exists>i<k. tr ! i = EvMeshAddNode m a))
     \<and> ((m, b) \<in> set seen \<or> (\<exists>j<k. tr ! j = EvMeshAddNode m b))"
proof (induction tr arbitrary: seen k)
  case Nil
  then show ?case by simp
next
  case (Cons ev tr)
  show ?case
  proof (cases k)
    case 0
    with Cons.prems have "nodes_registered seen (EvMeshAddElement m e ab regs # tr)"
      by simp
    from nodes_registered_head [OF this] show ?thesis by blast
  next
    case (Suc k')
    let ?seen = "case ev of EvMeshAddNode m n \<Rightarrow> (m, n) # seen | _ \<Rightarrow> seen"
    have "nodes_registered ?seen tr"
      using Cons.prems(1) by (rule nodes_registered_tail)
    moreover have "k' < length tr" and "tr ! k' = EvMeshAddElement m e ab regs"
      using Cons.prems Suc by simp_all
    ultimately obtain a b where ab: "ab = Some (a, b) \<and> a \<in> set regs \<and> b \<in> set regs"
      and a: "(m, a) \<in> set ?seen \<or> (\<exists>i<k'. tr ! i = EvMeshAddNode m a)"
      and b: "(m, b) \<in> set ?seen \<or> (\<exists>j<k'. tr ! j = EvMeshAddNode m b)"
      using Cons.IH [of ?seen k'] by blast
    have lift: "(m, c) \<in> set seen \<or> (\<exists>i<k. (ev # tr) ! i = EvMeshAddNode m c)"
      if "(m, c) \<in> set ?seen \<or> (\<exists>i<k'. tr ! i = EvMeshAddNode m c)" for c
      using that
    proof
      assume "(m, c) \<in> set ?seen"
      from seen_after_event [OF this] show ?thesis
      proof
        assume "(m, c) \<in> set seen"
        then show ?thesis ..
      next
        assume "ev = EvMeshAddNode (fst (m, c)) (snd (m, c))"
        then have "0 < k \<and> (ev # tr) ! 0 = EvMeshAddNode m c"
          using Suc by simp
        then show ?thesis by blast
      qed
    next
      assume "\<exists>i<k'. tr ! i = EvMeshAddNode m c"
      then obtain i where "i < k'" and "tr ! i = EvMeshAddNode m c"
        by blast
      then have "Suc i < k \<and> (ev # tr) ! Suc i = EvMeshAddNode m c"
        using Suc by simp
      then show ?thesis by blast
    qed
    from ab lift [OF a] lift [OF b] show ?thesis by blast
  qed
qed

text \<open>The events of \<^verbatim>\<open>main\<close> up to \<^verbatim>\<open>SetupInitial\<close>, written out.\<close>

lemma trace_main_setup:
  "trace main_setup =
     [EvSysAddMesh 0, EvSectionSet 0, EvSectionSet 0, EvSectionSet 0,
      EvMeshAddNode 0 0, EvMeshAddNode 0 1, EvMeshAddNode 0 2, EvMeshAddNode 0 3,
      EvMeshAddNode 0 4, EvMeshAddNode 0 5, EvMeshAddNode 0 6, EvMeshAddNode 0 7,
      EvMeshAddNode 0 8, EvMeshAddNode 0 9, EvMeshAddNode 0 10, EvMeshAddNode 0 11,
      EvMeshAddNode 0 12, EvMeshAddNode 0 13, EvMeshAddNode 0 14, EvMeshAddNode 0 15,
      EvSetSection 0 0, EvMeshAddElement 0 0 (Some (0, 1)) [0..<16],
      EvSetSection 1 0, EvMeshAddElement 0 1 (Some (1, 2)) [0..<16],
      EvSetSection 2 0, EvMeshAddElement 0 2 (Some (2, 3)) [0..<16],
      EvSetSection 3 0, EvMeshAddElement 0 3 (Some (3, 4)) [0..<16],
      EvSetSection 4 0, EvMeshAddElement 0 4 (Some (4, 5)) [0..<16],
      EvSetSection 5 0, EvMeshAddElement 0 5 (Some (5, 6)) [0..<16],
      EvSetSection 6 0, EvMeshAddElement 0 6 (Some (6, 7)) [0..<16],
      EvSetSection 7 0, EvMeshAddElement 0 7 (Some (7, 8)) [0..<16],
      EvSetSection 8 0, EvMeshAddElement 0 8 (Some (8, 9)) [0..<16],
      EvSetSection 9 0, EvMeshAddElement 0 9 (Some (9, 10)) [0..<16],
      EvSetSection 10 0, EvMeshAddElement 0 10 (Some (10, 11)) [0..<16],
      EvSetSection 11 0, EvMeshAddElement 0 11 (Some (11, 12)) [0..<16],
      EvSetSection 12 0, EvMeshAddElement 0 12 (Some (12, 13)) [0..<16],
      EvSetSection 13 0, EvMeshAddElement 0 13 (Some (13, 14)) [0..<16],
      EvSetSection 14 0, EvMeshAddElement 0 14 (Some (14, 15)) [0..<16],
      EvSysAddBody 0, EvSysAddLink 0, EvSysAddBody 1, EvSysAddLink 1,
      EvMeshAddAsset 0, EvMeshAddAsset 0, EvSetupInitial]"
  by (simp add: main_setup_state eval_nat_numeral)

lemma additions_before_setup:
  "all_before is_addition (\<lambda>e. e = EvSetupInitial) (trace main_setup)"
  by (simp add: all_before_def trace_main_setup)

lemma writes_before_sharing:
  "all_before is_section_write is_section_share (trace main_setup)"
  by (simp add: all_before_def trace_main_setup)

lemma nodes_registered_main_setup: "nodes_registered [] (trace main_setup)"
  by (simp add: trace_main_setup)

lemma count_setup_initial: "count_list (trace main_setup) EvSetupInitial = 1"
  by (simp add: trace_main_setup)

lemma count_steps: "count_list (replicate frames EvDoStep) EvSetupInitial = 0"
  by (induction frames) simp_all

lemma nodes_main_setup_length: "length (nodes main_setup) = 16"
  by (simp add: main_setup_state)

lemma fe_with_nodes_length: "length (fe_nodes (fe_with_nodes main_setup)) = 16"
  by (simp add: fe_with_nodes_def fe_empty_def nodes_main_setup_length)

lemma fe_with_nodes_nth:
  "a < 16 \<Longrightarrow> fst (fe_nodes (fe_with_nodes main_setup) ! a) = node_pos (nodes main_setup ! a)"
  by (simp add: fe_with_nodes_def fe_empty_def nodes_main_setup_length)

lemma element_accepted:
  "a < 16 \<Longrightarrow> b < 16 \<Longrightarrow>
   \<not> zero_length (node_pos (nodes main_setup ! a)) (node_pos (nodes main_setup ! b)) \<Longrightarrow>
   fst (mutate (MutElement a b) (fe_with_nodes main_setup)) = None"
  by (simp add: coincident_def fe_with_nodes_length fe_with_nodes_nth)
     (simp add: fe_with_nodes_def fe_empty_def)

lemma node_pos_main_setup:
  "i < 16 \<Longrightarrow> node_pos (nodes main_setup ! i) = node_position (int i)"
  by (simp add: main_setup_state mk_node_def)

lemma element_main_setup:
  "ie < 15 \<Longrightarrow> elements main_setup ! ie = \<lparr>elem_nodes = Some (ie, Suc ie), elem_section = Some 0\<rparr>"
  by (simp add: main_setup_state)

section \<open>The claims\<close>

text \<open>
  C1, as the code has it. The program builds a cable of 16 nodes and 15 elements from
  \<open>x = 0\<close> to \<open>x = 1.2\<close> at height \<open>0.5\<close>: node \<open>i\<close> sits at the position that step 4
  computes, element \<open>i\<close> joins node \<open>i\<close> to node \<open>i + 1\<close>, and all nodes and elements are in
  the one mesh of the system. One section of diameter \<open>0.01\<close> and Young's modulus \<open>1e7\<close>
  serves every element. Node 0 is tied by a point-to-frame link of the system to the
  truss, a fixed body of the system without shape. The free end, node 15, is not left
  alone: a second point-to-frame link of the system ties it to the second body, a free
  cylinder of radius \<open>0.02\<close>, height \<open>0.1\<close> and density \<open>1000\<close>.
\<close>

theorem cable_scenario:
  "length (nodes main_setup) = 16
   \<and> length (elements main_setup) = 15
   \<and> map node_pos (nodes main_setup) = map (\<lambda>i. node_position (int i)) [0..<16]
   \<and> node_pos (nodes main_setup ! 0) = ChVector 0 (1 / 2) 0
   \<and> node_pos (nodes main_setup ! 15) = ChVector (dbl (12 / 10)) (1 / 2) 0
   \<and> map elem_nodes (elements main_setup) = map (\<lambda>i. Some (i, Suc i)) [0..<15]
   \<and> sys_meshes (system main_setup) = [0]
   \<and> vnodes (meshes main_setup ! 0) = [0..<16]
   \<and> velements (meshes main_setup ! 0) = [0..<15]
   \<and> sections main_setup
       = [\<lparr>diameter = Some (dbl (1 / 100)), young_modulus = Some 10000000,
           rayleigh_damping = Some (dbl (1 / 100))\<rparr>]
   \<and> map elem_section (elements main_setup) = replicate 15 (Some 0)
   \<and> links main_setup
       = [\<lparr>link_kind = PointFrame, link_node = Some 0, link_body = Some 0\<rparr>,
          \<lparr>link_kind = PointFrame, link_node = Some 15, link_body = Some 1\<rparr>]
   \<and> sys_links (system main_setup) = [0, 1]
   \<and> attached_bodies main_setup 0 = [0]
   \<and> bodies main_setup ! 0 = \<lparr>body_fixed = True, body_pos = None, body_shape = None\<rparr>
   \<and> length (bodies main_setup) = 2
   \<and> sys_bodies (system main_setup) = [0, 1]
   \<and> last (beam_nodes main_setup) = 15
   \<and> attached_bodies main_setup 15 = [1]
   \<and> \<not> body_fixed (bodies main_setup ! 1)
   \<and> body_shape (bodies main_setup ! 1)
       = Some \<lparr>cyl_radius = dbl (2 / 100), cyl_height = dbl (1 / 10), cyl_density = 1000,
               cyl_collide = True, cyl_visualize = True\<rparr>"
  by (simp add: main_setup_state mk_node_def node_position_values attached_bodies_def
        dbl_values double_of_int_def eval_nat_numeral)

theorem cable_scenario_witness:
  "vx (node_pos (nodes main_setup ! 15)) - vx (node_pos (nodes main_setup ! 0))
     = 5404319552844595 / 4503599627370496
   \<and> map_option cyl_height (body_shape (bodies main_setup ! 1))
       = Some (3602879701896397 / 36028797018963968)
   \<and> map link_kind (links main_setup) = [PointFrame, PointFrame]
   \<and> attached_bodies main_setup 15 = [1]"
proof -
  from cable_scenario
  have "node_pos (nodes main_setup ! 0) = ChVector 0 (1 / 2) 0"
    and "node_pos (nodes main_setup ! 15) = ChVector (dbl (12 / 10)) (1 / 2) 0"
    and "links main_setup
       = [\<lparr>link_kind = PointFrame, link_node = Some 0, link_body = Some 0\<rparr>,
          \<lparr>link_kind = PointFrame, link_node = Some 15, link_body = Some 1\<rparr>]"
    and "attached_bodies main_setup 15 = [1]"
    and "body_shape (bodies main_setup ! 1)
       = Some \<lparr>cyl_radius = dbl (2 / 100), cyl_height = dbl (1 / 10), cyl_density = 1000,
               cyl_collide = True, cyl_visualize = True\<rparr>"
    by blast+
  then show ?thesis by (simp add: dbl_values)
qed

text \<open>
  C1, as the claim states it, has the free end without an attached body. In the program
  the list of bodies attached to the last node of \<^verbatim>\<open>beam_nodes\<close> is not empty.
\<close>

theorem free_end_unattached_counterexample:
  "\<not> (attached_bodies main_setup (last (beam_nodes main_setup)) = [])"
  by (simp add: main_setup_state attached_bodies_def eval_nat_numeral)

text \<open>
  C2. The system is configured with gravity \<open>(0, -9.81, 0)\<close>, timestep \<open>0.01\<close> s, a solver
  iteration cap of \<open>200\<close> (for both solver phases), force tolerance \<open>1e-10\<close>, the
  linearized implicit Euler integrator and warm starting switched on; the MINRES solver
  is selected. The settings hold when \<^verbatim>\<open>SetupInitial\<close> returns and after any number of
  frames. Each decimal stands for the double that the literal denotes.
\<close>

theorem system_configuration:
  "G_acc (system (main frames)) = Some (ChVector 0 (- dbl (981 / 100)) 0)
   \<and> application (main frames) = Some \<lparr>timestep = Some (dbl (1 / 100)), try_realtime = Some True\<rparr>
   \<and> max_iters_speed (system (main frames)) = Some 200
   \<and> max_iters_stab (system (main frames)) = Some 200
   \<and> tol_force (system (main frames)) = Some (dbl (1 / 10 ^ 10))
   \<and> timestepper (system (main frames)) = Some EULER_IMPLICIT_LINEARIZED
   \<and> warm_starting (system (main frames)) = Some True
   \<and> solver (system (main frames)) = Some MINRES"
  by (simp add: main_fields main_setup_state double_of_int_def dbl_zero)

theorem system_configuration_witness:
  "G_acc (system (main 500)) = Some (ChVector 0 (- (5522539043063071 / 562949953421312)) 0)
   \<and> application (main 500)
       = Some \<lparr>timestep = Some (5764607523034235 / 576460752303423488), try_realtime = Some True\<rparr>
   \<and> tol_force (system (main 500)) = Some (7737125245533627 / 77371252455336267181195264)
   \<and> max_iters_speed (system (main 500)) = Some 200"
  using system_configuration [of 500] by (simp add: dbl_values)

text \<open>
  C3. Topology is locked by finalize. In every run of \<^verbatim>\<open>main\<close>, whatever the number of
  frames, \<^verbatim>\<open>SetupInitial\<close> is called exactly once and every addition of the mesh, a node, an
  element, a body or a constraint comes strictly before that call. In the engine of the
  specification a finalized system stays finalized under finalize and under every
  attempted mutation, and every mutation attempted on a finalized system returns an
  error together with the unchanged state.
\<close>

theorem topology_locked_by_finalize:
  "count_list (trace (main frames)) EvSetupInitial = 1
   \<and> (\<forall>i j. i < length (trace (main frames)) \<and> j < length (trace (main frames))
          \<and> is_addition (trace (main frames) ! i) \<and> trace (main frames) ! j = EvSetupInitial
          \<longrightarrow> i < j)
   \<and> fe_finalized (finalize s)
   \<and> (fe_finalized s \<longrightarrow>
        (fst (mutate m s) = Some InvalidTopology \<or> fst (mutate m s) = Some InvalidGeometry)
        \<and> snd (mutate m s) = s
        \<and> fe_finalized (snd (mutate m s)))"
proof -
  have once: "count_list (trace (main frames)) EvSetupInitial = 1"
    by (simp add: main_fields count_setup_initial count_steps)
  have "\<exists>e\<in>set (trace main_setup). e = EvSetupInitial"
    by (simp add: trace_main_setup)
  then have "all_before is_addition (\<lambda>e. e = EvSetupInitial) (trace (main frames))"
    unfolding main_fields by (intro all_before_steps additions_before_setup) simp_all
  then have order: "\<forall>i j. i < length (trace (main frames)) \<and> j < length (trace (main frames))
      \<and> is_addition (trace (main frames) ! i) \<and> trace (main frames) ! j = EvSetupInitial
      \<longrightarrow> i < j"
    by (blast intro: all_before_sound)
  have locked: "fe_finalized (finalize s)"
    by (simp add: finalize_def)
  have rejected: "fe_finalized s \<longrightarrow>
      (fst (mutate m s) = Some InvalidTopology \<or> fst (mutate m s) = Some InvalidGeometry)
      \<and> snd (mutate m s) = s \<and> fe_finalized (snd (mutate m s))"
    by (cases m) simp_all
  from once order locked rejected show ?thesis by blast
qed

theorem topology_locked_by_finalize_witness:
  "is_addition (trace (main 2) ! 19) \<and> trace (main 2) ! 56 = EvSetupInitial \<and> (19 :: nat) < 56
   \<and> fe_finalized (finalize fe_empty)
   \<and> mutate (MutBody False) (finalize fe_empty) = (Some InvalidTopology, finalize fe_empty)"
proof -
  have tr: "trace (main 2) = trace main_setup @ [EvDoStep, EvDoStep]"
    by (simp add: main_fields eval_nat_numeral)
  have len: "19 < length (trace (main 2))" "56 < length (trace (main 2))"
    unfolding tr by (simp_all add: trace_main_setup)
  have ev: "is_addition (trace (main 2) ! 19)" "trace (main 2) ! 56 = EvSetupInitial"
    unfolding tr by (simp_all add: trace_main_setup)
  have fin: "fe_finalized (finalize fe_empty)"
    by (simp add: finalize_def)
  from topology_locked_by_finalize [of 2 "finalize fe_empty" "MutBody False"] len ev fin
  have "(19 :: nat) < 56" and "snd (mutate (MutBody False) (finalize fe_empty)) = finalize fe_empty"
    by blast+
  with ev fin show ?thesis
    by (simp add: finalize_def fe_empty_def)
qed

text \<open>
  C4. The 16 nodes and the 15 elements are in the one mesh of the system, and every
  element of the mesh holds two node pointers that are in the node list of that mesh.
  That was so at each addition already: whenever \<^verbatim>\<open>main\<close> adds an element to a mesh, the
  element holds two node pointers, the node list of that mesh holds both at the moment of
  the call, and both were put there by earlier \<^verbatim>\<open>AddNode\<close> calls on the same mesh.
\<close>

theorem element_nodes_registered_first:
  "sys_meshes (system (main frames)) = [0]
   \<and> vnodes (meshes (main frames) ! 0) = [0..<16]
   \<and> velements (meshes (main frames) ! 0) = [0..<15]
   \<and> mesh_closed (main frames) 0
   \<and> trace (AddElement m' e' w)
       = trace w @ [EvMeshAddElement m' e' (elem_nodes (elements w ! e')) (vnodes (meshes w ! m'))]
   \<and> (\<forall>k m e ab regs.
         k < length (trace (main frames))
         \<and> trace (main frames) ! k = EvMeshAddElement m e ab regs
         \<longrightarrow> (\<exists>a b. ab = Some (a, b) \<and> a \<in> set regs \<and> b \<in> set regs
               \<and> (\<exists>i<k. trace (main frames) ! i = EvMeshAddNode m a)
               \<and> (\<exists>j<k. trace (main frames) ! j = EvMeshAddNode m b)))"
proof -
  have state: "sys_meshes (system (main frames)) = [0]
      \<and> vnodes (meshes (main frames) ! 0) = [0..<16]
      \<and> velements (meshes (main frames) ! 0) = [0..<15]"
    by (simp add: main_fields main_setup_state)
  have closed: "mesh_closed (main frames) 0"
    by (simp add: mesh_closed_def list_all_iff main_fields main_setup_state)
  have logged: "trace (AddElement m' e' w)
      = trace w @ [EvMeshAddElement m' e' (elem_nodes (elements w ! e')) (vnodes (meshes w ! m'))]"
    by (simp add: AddElement_def record_event_def)
  have reg: "nodes_registered [] (trace (main frames))"
    by (simp add: main_fields nodes_registered_steps nodes_registered_main_setup)
  have "\<exists>a b. ab = Some (a, b) \<and> a \<in> set regs \<and> b \<in> set regs
          \<and> (\<exists>i<k. trace (main frames) ! i = EvMeshAddNode m a)
          \<and> (\<exists>j<k. trace (main frames) ! j = EvMeshAddNode m b)"
    if "k < length (trace (main frames))"
      and "trace (main frames) ! k = EvMeshAddElement m e ab regs" for k m e ab regs
    using nodes_registered_sound [OF reg that] by simp
  with state closed logged show ?thesis by blast
qed

theorem element_nodes_registered_first_witness:
  "trace (main 1) ! 21 = EvMeshAddElement 0 0 (Some (0, 1)) [0..<16]
   \<and> (\<exists>i<21. trace (main 1) ! i = EvMeshAddNode 0 0)
   \<and> (\<exists>j<21. trace (main 1) ! j = EvMeshAddNode 0 1)
   \<and> mesh_closed (main 1) 0
   \<and> velements (meshes (main 1) ! 0) = [0..<15]"
proof -
  have tr: "trace (main 1) = trace main_setup @ [EvDoStep]"
    by (simp add: main_fields)
  have len: "21 < length (trace (main 1))"
    unfolding tr by (simp add: trace_main_setup)
  have ev: "trace (main 1) ! 21 = EvMeshAddElement 0 0 (Some (0, 1)) [0..<16]"
    unfolding tr by (simp add: trace_main_setup)
  from element_nodes_registered_first [of 1] len ev
  have "\<exists>a b. Some (0, 1) = Some (a, b) \<and> a \<in> set [0..<16] \<and> b \<in> set [0..<16]
          \<and> (\<exists>i<21. trace (main 1) ! i = EvMeshAddNode 0 a)
          \<and> (\<exists>j<21. trace (main 1) ! j = EvMeshAddNode 0 b)"
    and "mesh_closed (main 1) 0"
    and "velements (meshes (main 1) ! 0) = [0..<15]"
    by blast+
  with ev show ?thesis by simp
qed

text \<open>
  C5. In the engine of the specification, constructing an element between two
  registered nodes with the same position is rejected with \<open>InvalidGeometry\<close>, and the
  state that comes back is the state that went in.
\<close>

theorem zero_length_element_rejected:
  "a < length (fe_nodes s) \<Longrightarrow> b < length (fe_nodes s) \<Longrightarrow>
   fst (fe_nodes s ! a) = fst (fe_nodes s ! b) \<Longrightarrow>
   mutate (MutElement a b) s = (Some InvalidGeometry, s)"
  by (simp add: coincident_def zero_length_def)

theorem zero_length_element_rejected_witness:
  "mutate (MutElement 0 1)
     (fe_empty\<lparr>fe_nodes := [(ChVector 0 (1 / 2) 0, ChVector 1 0 0),
                            (ChVector 0 (1 / 2) 0, ChVector 0 1 0)]\<rparr>)
   = (Some InvalidGeometry,
      fe_empty\<lparr>fe_nodes := [(ChVector 0 (1 / 2) 0, ChVector 1 0 0),
                             (ChVector 0 (1 / 2) 0, ChVector 0 1 0)]\<rparr>)"
  by (rule zero_length_element_rejected) simp_all

text \<open>
  C6. All 15 elements of the program refer to one and the same section object, whose
  diameter is \<open>0.01\<close>, Young's modulus \<open>1e7\<close> and damping \<open>0.01\<close>, within the bounds
  diameter \<open>> 0\<close>, modulus \<open>> 0\<close>, damping \<open>\<ge> 0\<close>. The section is immutable while shared:
  every write to a section precedes every call that hands a section to an element, so
  no element ever sees it change.
\<close>

theorem shared_section:
  "sections (main frames)
     = [\<lparr>diameter = Some (dbl (1 / 100)), young_modulus = Some 10000000,
         rayleigh_damping = Some (dbl (1 / 100))\<rparr>]
   \<and> map elem_section (elements (main frames)) = replicate 15 (Some 0)
   \<and> section_valid (sections (main frames) ! 0)
   \<and> (\<forall>i j. i < length (trace (main frames)) \<and> j < length (trace (main frames))
          \<and> is_section_write (trace (main frames) ! i) \<and> is_section_share (trace (main frames) ! j)
          \<longrightarrow> i < j)"
proof -
  have state: "sections (main frames)
       = [\<lparr>diameter = Some (dbl (1 / 100)), young_modulus = Some 10000000,
           rayleigh_damping = Some (dbl (1 / 100))\<rparr>]
     \<and> map elem_section (elements (main frames)) = replicate 15 (Some 0)"
    by (simp add: main_fields main_setup_state dbl_values eval_nat_numeral)
  then have valid: "section_valid (sections (main frames) ! 0)"
    by (simp add: section_valid_def dbl_values)
  have "\<exists>e\<in>set (trace main_setup). is_section_share e"
    by (simp add: trace_main_setup)
  then have "all_before is_section_write is_section_share (trace (main frames))"
    unfolding main_fields by (intro all_before_steps writes_before_sharing) simp_all
  then have "\<forall>i j. i < length (trace (main frames)) \<and> j < length (trace (main frames))
      \<and> is_section_write (trace (main frames) ! i) \<and> is_section_share (trace (main frames) ! j)
      \<longrightarrow> i < j"
    by (blast intro: all_before_sound)
  with state valid show ?thesis by blast
qed

theorem shared_section_witness:
  "is_section_write (trace (main 1) ! 3) \<and> is_section_share (trace (main 1) ! 20)
   \<and> (3 :: nat) < 20
   \<and> map diameter (sections (main 1)) = [Some (5764607523034235 / 576460752303423488)]"
proof -
  have tr: "trace (main 1) = trace main_setup @ [EvDoStep]"
    by (simp add: main_fields)
  have len: "3 < length (trace (main 1))" "20 < length (trace (main 1))"
    unfolding tr by (simp_all add: trace_main_setup)
  have ev: "is_section_write (trace (main 1) ! 3)" "is_section_share (trace (main 1) ! 20)"
    unfolding tr by (simp_all add: trace_main_setup)
  from shared_section [of 1] len ev
  have "(3 :: nat) < 20"
    and "sections (main 1)
      = [\<lparr>diameter = Some (dbl (1 / 100)), young_modulus = Some 10000000,
          rayleigh_damping = Some (dbl (1 / 100))\<rparr>]"
    by blast+
  with ev show ?thesis by (simp add: dbl_values)
qed

text \<open>
  C7. In the engine of the specification finalize is idempotent: a second finalize gives
  the same node and body offsets as the first, indeed the same state, also when
  a mutation was attempted (and rejected) in between.
\<close>

theorem finalize_idempotent:
  "fe_node_offsets (finalize (finalize s)) = fe_node_offsets (finalize s)
   \<and> fe_body_offsets (finalize (finalize s)) = fe_body_offsets (finalize s)
   \<and> finalize (finalize s) = finalize s
   \<and> finalize (snd (mutate m (finalize s))) = finalize s"
proof -
  have twice: "finalize (finalize s) = finalize s"
    by (simp add: finalize_def)
  have "snd (mutate m (finalize s)) = finalize s"
    by (cases m) (simp_all add: finalize_def)
  with twice show ?thesis by simp
qed

theorem finalize_idempotent_witness:
  "fe_node_offsets (finalize (finalize (fe_empty\<lparr>fe_nodes := [(ChVector 0 0 0, ChVector 1 0 0),
       (ChVector 1 0 0, ChVector 1 0 0)], fe_bodies := [True, False, False]\<rparr>))) = [0, 6]
   \<and> fe_body_offsets (finalize (finalize (fe_empty\<lparr>fe_nodes := [(ChVector 0 0 0, ChVector 1 0 0),
       (ChVector 1 0 0, ChVector 1 0 0)], fe_bodies := [True, False, False]\<rparr>))) = [12, 12, 18]"
  using finalize_idempotent [of "fe_empty\<lparr>fe_nodes := [(ChVector 0 0 0, ChVector 1 0 0),
       (ChVector 1 0 0, ChVector 1 0 0)], fe_bodies := [True, False, False]\<rparr>"]
  by (simp add: finalize_def fe_empty_def)

text \<open>
  C8, as the code has it. For each of the 15 elements, element \<open>ie\<close> joins node \<open>ie\<close> to
  node \<open>ie + 1\<close>; both lie at \<open>y = 0.5\<close>, \<open>z = 0\<close>, and the second has the strictly larger
  \<open>x\<close>, the two being \<open>0.08\<close> apart up to rounding (within \<open>2\<^sup>-\<^sup>5\<^sup>2\<close>). The endpoints are
  therefore distinct and the zero-length test of the engine does not fire for any
  element of the program.
\<close>

theorem element_endpoints_distinct:
  "ie < 15 \<Longrightarrow>
   elem_nodes (elements main_setup ! ie) = Some (ie, Suc ie)
   \<and> vx (node_pos (nodes main_setup ! ie)) < vx (node_pos (nodes main_setup ! Suc ie))
   \<and> \<bar>vx (node_pos (nodes main_setup ! Suc ie)) - vx (node_pos (nodes main_setup ! ie)) - 8 / 100\<bar>
       \<le> 1 / 2 ^ 52
   \<and> vy (node_pos (nodes main_setup ! ie)) = 1 / 2
   \<and> vy (node_pos (nodes main_setup ! Suc ie)) = 1 / 2
   \<and> vz (node_pos (nodes main_setup ! ie)) = 0
   \<and> vz (node_pos (nodes main_setup ! Suc ie)) = 0
   \<and> \<not> zero_length (node_pos (nodes main_setup ! ie)) (node_pos (nodes main_setup ! Suc ie))
   \<and> fst (mutate (MutElement ie (Suc ie)) (fe_with_nodes main_setup)) = None"
proof -
  assume "ie < 15"
  then have "ie \<in> set [0, 1, 2, 3, 4, 5, 6, 7, 8, 9, 10, 11, 12, 13, 14]"
    by simp arith
  moreover have "\<forall>ie\<in>set [0, 1, 2, 3, 4, 5, 6, 7, 8, 9, 10, 11, 12, 13, 14 :: nat].
       elem_nodes (elements main_setup ! ie) = Some (ie, Suc ie)
     \<and> vx (node_pos (nodes main_setup ! ie)) < vx (node_pos (nodes main_setup ! Suc ie))
     \<and> \<bar>vx (node_pos (nodes main_setup ! Suc ie)) - vx (node_pos (nodes main_setup ! ie)) - 8 / 100\<bar>
         \<le> 1 / 2 ^ 52
     \<and> vy (node_pos (nodes main_setup ! ie)) = 1 / 2
     \<and> vy (node_pos (nodes main_setup ! Suc ie)) = 1 / 2
     \<and> vz (node_pos (nodes main_setup ! ie)) = 0
     \<and> vz (node_pos (nodes main_setup ! Suc ie)) = 0
     \<and> \<not> zero_length (node_pos (nodes main_setup ! ie)) (node_pos (nodes main_setup ! Suc ie))"
    by (simp add: node_pos_main_setup element_main_setup node_position_values zero_length_def)
  ultimately have main:
      "elem_nodes (elements main_setup ! ie) = Some (ie, Suc ie)
     \<and> vx (node_pos (nodes main_setup ! ie)) < vx (node_pos (nodes main_setup ! Suc ie))
     \<and> \<bar>vx (node_pos (nodes main_setup ! Suc ie)) - vx (node_pos (nodes main_setup ! ie)) - 8 / 100\<bar>
         \<le> 1 / 2 ^ 52
     \<and> vy (node_pos (nodes main_setup ! ie)) = 1 / 2
     \<and> vy (node_pos (nodes main_setup ! Suc ie)) = 1 / 2
     \<and> vz (node_pos (nodes main_setup ! ie)) = 0
     \<and> vz (node_pos (nodes main_setup ! Suc ie)) = 0
     \<and> \<not> zero_length (node_pos (nodes main_setup ! ie)) (node_pos (nodes main_setup ! Suc ie))"
    by blast
  then have "\<not> zero_length (node_pos (nodes main_setup ! ie)) (node_pos (nodes main_setup ! Suc ie))"
    by blast
  with \<open>ie < 15\<close> have "fst (mutate (MutElement ie (Suc ie)) (fe_with_nodes main_setup)) = None"
    by (intro element_accepted) simp_all
  with main show ?thesis by blast
qed

theorem element_endpoints_distinct_witness:
  "elem_nodes (elements main_setup ! 2) = Some (2, 3)
   \<and> vx (node_pos (nodes main_setup ! 2)) = 5764607523034235 / 36028797018963968
   \<and> vx (node_pos (nodes main_setup ! 3)) = 1080863910568919 / 4503599627370496
   \<and> \<not> zero_length (node_pos (nodes main_setup ! 2)) (node_pos (nodes main_setup ! 3))
   \<and> fst (mutate (MutElement 2 3) (fe_with_nodes main_setup)) = None"
proof -
  have "(2 :: nat) < 15" by simp
  from element_endpoints_distinct [OF this]
  have "elem_nodes (elements main_setup ! 2) = Some (2, Suc 2)"
    and "\<not> zero_length (node_pos (nodes main_setup ! 2)) (node_pos (nodes main_setup ! Suc 2))"
    and "fst (mutate (MutElement 2 (Suc 2)) (fe_with_nodes main_setup)) = None"
    by blast+
  then show ?thesis
    by (simp add: node_pos_main_setup node_position_values)
qed

text \<open>
  C8, as the claim states it, has consecutive nodes exactly \<open>0.08\<close> apart. Between nodes 2
  and 3, the ends of the third element, the distance is neither the number \<open>0.08\<close> nor
  the double \<open>0.08\<close>, whether the difference is taken exactly or in double arithmetic.
\<close>

theorem uniform_spacing_counterexample:
  "\<not> (vx (node_pos (nodes main_setup ! 3)) - vx (node_pos (nodes main_setup ! 2)) = 8 / 100)
   \<and> \<not> (vx (node_pos (nodes main_setup ! 3)) - vx (node_pos (nodes main_setup ! 2)) = dbl (8 / 100))
   \<and> \<not> (dsub (vx (node_pos (nodes main_setup ! 3))) (vx (node_pos (nodes main_setup ! 2)))
          = dbl (8 / 100))"
  by (simp add: node_pos_main_setup node_position_values dsub_def dbl_values)

text \<open>
  C9, as the code has it. The second link of the system is a point-to-frame link from
  node 15, the free end, to the cylinder. The cylinder has height \<open>0.1\<close>, half of which
  is the double \<open>0.05\<close>, and \<^verbatim>\<open>main\<close> puts its centre at the node's position plus
  \<open>(0, -0.05, 0)\<close> in double arithmetic, at \<open>(1.2, 0.45, 0)\<close>: straight below the node, by
  half the height up to one rounding (the gap of the stored ordinates is within \<open>2\<^sup>-\<^sup>5\<^sup>6\<close>
  of \<open>0.05\<close>). In double arithmetic the centre of the cylinder's top face is the node's
  position and the constraint starts with violation \<open>(0, 0, 0)\<close>, whether its pickup point
  is the top-face centre or the node's own place in the cylinder's frame; with the
  latter the pickup point carried back to the world is the node's position exactly.
\<close>

theorem cylinder_hangs_from_free_end:
  "last (beam_nodes main_setup) = 15
   \<and> links main_setup ! 1 = \<lparr>link_kind = PointFrame, link_node = Some 15, link_body = Some 1\<rparr>
   \<and> sys_links (system main_setup) = [0, 1]
   \<and> attached_bodies main_setup 15 = [1]
   \<and> ddiv (dbl (1 / 10)) (double_of_int 2) = dbl (5 / 100)
   \<and> GetPos 15 main_setup = ChVector (dbl (12 / 10)) (1 / 2) 0
   \<and> body_pos (bodies main_setup ! 1) = Some (ChVector (dbl (12 / 10)) (dbl (45 / 100)) 0)
   \<and> (case drop_below main_setup 15 1 of
        Some d \<Rightarrow> 0 < d \<and> \<bar>d - 5 / 100\<bar> \<le> 1 / 2 ^ 56
      | None \<Rightarrow> False)
   \<and> (case (body_pos (bodies main_setup ! 1), body_shape (bodies main_setup ! 1)) of
        (Some centre, Some c) \<Rightarrow>
          cyl_height c = dbl (1 / 10)
          \<and> centre = vadd (GetPos 15 main_setup)
                       (ChVector 0 (- ddiv (cyl_height c) (double_of_int 2)) 0)
          \<and> vx centre = vx (GetPos 15 main_setup)
          \<and> vz centre = vz (GetPos 15 main_setup)
          \<and> vadd centre (top_face_centre c) = GetPos 15 main_setup
          \<and> violation (GetPos 15 main_setup) centre (top_face_centre c) = ChVector 0 0 0
          \<and> violation (GetPos 15 main_setup) centre (vsub (GetPos 15 main_setup) centre)
              = ChVector 0 0 0
          \<and> vx centre + vx (vsub (GetPos 15 main_setup) centre) = vx (GetPos 15 main_setup)
          \<and> vy centre + vy (vsub (GetPos 15 main_setup) centre) = vy (GetPos 15 main_setup)
          \<and> vz centre + vz (vsub (GetPos 15 main_setup) centre) = vz (GetPos 15 main_setup)
      | _ \<Rightarrow> False)"
  by (simp add: main_setup_state attached_bodies_def drop_below_def GetPos_def mk_node_def
        node_position_values top_face_centre_def violation_def double_ops dbl_zero dbl_values
        eval_nat_numeral)

theorem cylinder_hangs_from_free_end_witness:
  "body_pos (bodies main_setup ! 1)
     = Some (ChVector (5404319552844595 / 4503599627370496)
               (8106479329266893 / 18014398509481984) 0)
   \<and> GetPos 15 main_setup = ChVector (5404319552844595 / 4503599627370496) (1 / 2) 0
   \<and> link_kind (links main_setup ! 1) = PointFrame"
proof -
  from cylinder_hangs_from_free_end
  have "body_pos (bodies main_setup ! 1) = Some (ChVector (dbl (12 / 10)) (dbl (45 / 100)) 0)"
    and "GetPos 15 main_setup = ChVector (dbl (12 / 10)) (1 / 2) 0"
    and "links main_setup ! 1 = \<lparr>link_kind = PointFrame, link_node = Some 15, link_body = Some 1\<rparr>"
    by blast+
  then show ?thesis
    by (simp add: dbl_values)
qed

text \<open>
  C9, as the claim states it, has the centre exactly half the height, \<open>0.05\<close>, below the
  node. The drop from node 15 to the origin of body 1 is neither the number \<open>0.05\<close> nor
  the double \<open>0.05\<close>, whether the difference is taken exactly or in double arithmetic.
\<close>

theorem cylinder_drop_counterexample:
  "\<not> (drop_below main_setup 15 1 = Some (5 / 100))
   \<and> \<not> (drop_below main_setup 15 1 = Some (dbl (5 / 100)))
   \<and> \<not> (drop_below_double main_setup 15 1 = Some (dbl (5 / 100)))"
  by (simp add: main_setup_state drop_below_def drop_below_double_def GetPos_def mk_node_def
        node_position_values double_ops dbl_zero dbl_values eval_nat_numeral)

text \<open>
  C10. Node 0 is attached to the ground by one point-to-frame link to the truss, a fixed
  body. The link holds the three position DOFs of the node and none of the three
  direction DOFs; the node itself is not fixed. Fixing the node outright with
  \<^verbatim>\<open>SetFixed(true)\<close> would hold all six, direction included.
\<close>

theorem ground_attachment_position_only:
  "constrained_dofs main_setup 0 = [PosX, PosY, PosZ]
   \<and> attached_bodies main_setup 0 = [0]
   \<and> body_fixed (bodies main_setup ! 0)
   \<and> map link_kind (links main_setup) = [PointFrame, PointFrame]
   \<and> DirX \<notin> set (constrained_dofs main_setup 0)
   \<and> DirY \<notin> set (constrained_dofs main_setup 0)
   \<and> DirZ \<notin> set (constrained_dofs main_setup 0)
   \<and> \<not> node_fixed (nodes main_setup ! 0)
   \<and> constrained_dofs (SetFixed 0 True main_setup) 0 = [PosX, PosY, PosZ, DirX, DirY, DirZ]"
  by (simp add: main_setup_state constrained_dofs_def attached_bodies_def SetFixed_def
        mk_node_def eval_nat_numeral)

theorem ground_attachment_position_only_witness:
  "set (constrained_dofs main_setup 0) = {PosX, PosY, PosZ}
   \<and> DirX \<in> set (constrained_dofs (SetFixed 0 True main_setup) 0)"
  using ground_attachment_position_only by simp

end
